theory Spec2Isabelle
  imports Main
begin

section \<open>Error domains and errors\<close>

text \<open>
  \<^verbatim>\<open>class error_domain\<close> has one data member, the success code; \<^verbatim>\<open>name()\<close> and
  \<^verbatim>\<open>message()\<close> are pure virtual and live in the class that \<^verbatim>\<open>make_error_domain\<close>
  derives from it. The record extension mirrors the derivation. Codes are C \<^verbatim>\<open>int\<close>s that
  are only stored and compared, never computed with, so they are modelled as \<open>int\<close>.
\<close>

record error_domain =
  m_success_code :: int

record domain = error_domain +
  m_name :: string
  messages :: "int \<Rightarrow> string"

text \<open>\<^verbatim>\<open>bool success(integral_type code) const { return code == m_success_code; }\<close>\<close>

definition success :: "'x error_domain_scheme \<Rightarrow> int \<Rightarrow> bool" where
  "success d code = (code = m_success_code d)"

definition make_error_domain :: "string \<Rightarrow> int \<Rightarrow> (int \<Rightarrow> string) \<Rightarrow> domain" where
  "make_error_domain name success_code msgs =
     \<lparr>m_success_code = success_code, m_name = name, messages = msgs\<rparr>"

text \<open>
  There is one domain object per error-code enumeration (\<^verbatim>\<open>err_domain<ErrorCode>\<close>), and the
  library only ever compares and stores the address of such an object. The address is modelled
  by a datatype: the two sentinel domains, the domain of \<^verbatim>\<open>std::errc\<close>, and user domains.
\<close>

datatype domain_addr =
    Err_domain_throwing_error
  | Err_domain_throwing_exception
  | Err_domain_errc
  | Err_domain_user nat

text \<open>The two sentinel domains: empty name, success code \<^verbatim>\<open>throwing_error{}\<close> = 0, empty messages.\<close>

definition err_domain_throwing_error :: domain where
  "err_domain_throwing_error = make_error_domain [] 0 (\<lambda>_. [])"

definition err_domain_throwing_exception :: domain where
  "err_domain_throwing_exception = make_error_domain [] 0 (\<lambda>_. [])"

record error =
  m_domain :: domain_addr
  m_code :: int

text \<open>
  Modelled from the spec: the numeric value of \<^verbatim>\<open>std::errc::not_enough_memory\<close> comes from the
  host's \<^verbatim>\<open><cerrno>\<close> (\<^verbatim>\<open>ENOMEM\<close>), which is not part of the repository; the spec only names
  the code "not enough memory". The value 12 is the one of Linux; no statement below depends
  on it.
\<close>

definition not_enough_memory :: int where
  "not_enough_memory = 12"

text \<open>\<^verbatim>\<open>error(ErrorCode)\<close> for \<^verbatim>\<open>std::errc\<close>: the domain is \<^verbatim>\<open>&err_domain<std::errc>\<close>.\<close>

definition error_errc :: "int \<Rightarrow> error" where
  "error_errc code = \<lparr>m_domain = Err_domain_errc, m_code = code\<rparr>"


section \<open>Type descriptors and \<^verbatim>\<open>dyn_cast\<close>\<close>

text \<open>
  Object addresses are natural numbers and 0 is the null pointer.

  \<^verbatim>\<open>type_information<Type, Bases...>::info\<close> is a static table: the number of bases, then a
  pointer to each base's table, then one derived-to-base cast function per base. A pointer to
  such a table is modelled by the table itself together with its address: the address, and for
  each base in declaration order the base's table paired with its cast function (the two
  parallel arrays of the source always have the same length and are read at the same index).
  Comparing two type ids compares the addresses.
\<close>

type_synonym pointer = nat

abbreviation nullptr :: pointer where
  "nullptr \<equiv> 0"

datatype type_info =
  Type_info (info_addr: pointer) (info_bases: "(type_info \<times> (pointer \<Rightarrow> pointer)) list")

text \<open>
  \<^verbatim>\<open>dyn_cast(base, most_derived_pointer, most_derived)\<close>. The second function is the \<^verbatim>\<open>for\<close>
  loop over the bases, from the current index on.
\<close>

fun dyn_cast :: "type_info \<Rightarrow> pointer \<Rightarrow> type_info \<Rightarrow> pointer"
  and dyn_cast_bases ::
    "type_info \<Rightarrow> pointer \<Rightarrow> (type_info \<times> (pointer \<Rightarrow> pointer)) list \<Rightarrow> pointer"
where
  "dyn_cast base most_derived_pointer (Type_info a bs) =
     (if a = info_addr base then most_derived_pointer
      else dyn_cast_bases base most_derived_pointer bs)"
| "dyn_cast_bases base most_derived_pointer [] = nullptr"
| "dyn_cast_bases base most_derived_pointer (b # bs) =
     (let result = dyn_cast base ((snd b) most_derived_pointer) (fst b)
      in if result \<noteq> nullptr then result
         else dyn_cast_bases base most_derived_pointer bs)"

text \<open>
  For stating the search order: the results of the recursive calls, one per direct base in
  declaration order, and the first non-null entry of such a list (null when there is none).
\<close>

definition base_results :: "type_info \<Rightarrow> pointer \<Rightarrow> type_info \<Rightarrow> pointer list" where
  "base_results base p t = map (\<lambda>b. dyn_cast base ((snd b) p) (fst b)) (info_bases t)"

fun first_non_null :: "pointer list \<Rightarrow> pointer" where
  "first_non_null [] = nullptr"
| "first_non_null (r # rs) = (if r \<noteq> nullptr then r else first_non_null rs)"

text \<open>Whether some chain of declared bases leads from a type to the target type.\<close>

fun reaches :: "type_info \<Rightarrow> type_info \<Rightarrow> bool"
  and reaches_bases :: "type_info \<Rightarrow> (type_info \<times> (pointer \<Rightarrow> pointer)) list \<Rightarrow> bool"
where
  "reaches base (Type_info a bs) = (a = info_addr base \<or> reaches_bases base bs)"
| "reaches_bases base [] = False"
| "reaches_bases base (b # bs) = (reaches base (fst b) \<or> reaches_bases base bs)"


section \<open>The promised value\<close>

text \<open>
  A type-erased exception object: the descriptor of the thrown type, the address of the stored
  value (what \<^verbatim>\<open>dynamic_object()\<close> returns), and the value. The exception pointer is a
  \<^verbatim>\<open>unique_ptr\<close>; \<open>None\<close> is the null pointer.
\<close>

record 'e exception_object =
  exn_type_id :: type_info
  exn_address :: pointer
  exn_value :: 'e

type_synonym 'e exception_ptr = "'e exception_object option"

record dynamic_object =
  type_id :: "type_info option"
  address :: pointer

definition null_dynamic_object :: dynamic_object where
  "null_dynamic_object = \<lparr>type_id = None, address = nullptr\<rparr>"

definition exception_dynamic_object :: "'e exception_object \<Rightarrow> dynamic_object" where
  "exception_dynamic_object x = \<lparr>type_id = Some (exn_type_id x), address = exn_address x\<rparr>"

text \<open>
  The anonymous union of \<^verbatim>\<open>promised_value\<close>: exactly one member is stored. Reading a member
  that is not the stored one is undefined behaviour in C++; the operations below that read the
  union return a fault in that case.
\<close>

datatype ('v, 'e) storage =
    M_error_code int
  | M_exception "'e exception_ptr"
  | M_value 'v

record ('v, 'e) promised_value =
  m_error_domain :: "domain_addr option"
  m_storage :: "('v, 'e) storage"

text \<open>
  What can go wrong: undefined behaviour, a call of \<^verbatim>\<open>std::terminate()\<close>, and code that the
  compiler rejects.
\<close>

datatype fault = Undefined_behaviour | Terminate | Ill_formed

text \<open>
  The three allocator configurations of the \<^verbatim>\<open>Allocator\<close> template parameter: \<^verbatim>\<open>void\<close>
  (global \<^verbatim>\<open>new\<close>), an allocator whose \<^verbatim>\<open>allocate\<close> is \<^verbatim>\<open>noexcept\<close> and reports failure by
  a null pointer, and an allocator whose \<^verbatim>\<open>allocate\<close> may throw.
\<close>

datatype allocator = Void_allocator | Noexcept_allocator | Throwing_allocator

text \<open>
  \<^verbatim>\<open>is_noexcept_allocator\<close>: for \<^verbatim>\<open>void\<close> the question is asked of \<^verbatim>\<open>std::allocator\<close>, whose
  \<^verbatim>\<open>allocate\<close> is not \<^verbatim>\<open>noexcept\<close>.
\<close>

definition is_noexcept_allocator :: "allocator \<Rightarrow> bool" where
  "is_noexcept_allocator A = (A = Noexcept_allocator)"

text \<open>
  The default constructor sets the domain pointer to \<^verbatim>\<open>&err_domain<throwing_error>\<close>; the
  union's default member initialiser is \<^verbatim>\<open>m_error_code{}\<close>.
\<close>

definition promised_value_init :: "('v, 'e) promised_value" where
  "promised_value_init =
     \<lparr>m_error_domain = Some Err_domain_throwing_error, m_storage = M_error_code 0\<rparr>"

definition has_exception :: "('v, 'e) promised_value \<Rightarrow> bool" where
  "has_exception pv = (m_error_domain pv = Some Err_domain_throwing_exception)"

definition has_value :: "('v, 'e) promised_value \<Rightarrow> bool" where
  "has_value pv = (m_error_domain pv = None)"

definition has_error :: "('v, 'e) promised_value \<Rightarrow> bool" where
  "has_error pv = (\<not> has_value pv \<and> \<not> has_exception pv)"

text \<open>\<^verbatim>\<open>has_exception() && !m_exception\<close>: the union is read only when the left operand holds.\<close>

definition is_rethrow :: "('v, 'e) promised_value \<Rightarrow> fault + bool" where
  "is_rethrow pv =
     (if has_exception pv then
        (case m_storage pv of
           M_exception p \<Rightarrow> Inr (p = None)
         | _ \<Rightarrow> Inl Undefined_behaviour)
      else Inr False)"

definition value_of :: "('v, 'e) promised_value \<Rightarrow> fault + 'v" where
  "value_of pv = (case m_storage pv of M_value v \<Rightarrow> Inr v | _ \<Rightarrow> Inl Undefined_behaviour)"

text \<open>\<^verbatim>\<open>exception()\<close> dereferences the pointer.\<close>

definition exception_of :: "('v, 'e) promised_value \<Rightarrow> fault + 'e exception_object" where
  "exception_of pv =
     (case m_storage pv of
        M_exception (Some x) \<Rightarrow> Inr x
      | _ \<Rightarrow> Inl Undefined_behaviour)"

text \<open>\<^verbatim>\<open>get_error()\<close> dereferences the domain pointer and reads the code.\<close>

definition get_error :: "('v, 'e) promised_value \<Rightarrow> fault + error" where
  "get_error pv =
     (case (m_error_domain pv, m_storage pv) of
        (Some d, M_error_code c) \<Rightarrow> Inr \<lparr>m_domain = d, m_code = c\<rparr>
      | _ \<Rightarrow> Inl Undefined_behaviour)"

definition set_value :: "'v \<Rightarrow> ('v, 'e) promised_value \<Rightarrow> ('v, 'e) promised_value" where
  "set_value other pv = pv\<lparr>m_storage := M_value other, m_error_domain := None\<rparr>"

text \<open>The \<^verbatim>\<open>void\<close> variant only clears the domain pointer.\<close>

definition set_value_void :: "('v, 'e) promised_value \<Rightarrow> ('v, 'e) promised_value" where
  "set_value_void pv = pv\<lparr>m_error_domain := None\<rparr>"

definition set_error :: "error \<Rightarrow> ('v, 'e) promised_value \<Rightarrow> ('v, 'e) promised_value" where
  "set_error err pv =
     pv\<lparr>m_error_domain := Some (m_domain err), m_storage := M_error_code (m_code err)\<rparr>"

text \<open>
  \<^verbatim>\<open>set_exception\<close>: store the pointer, set the domain to the exception sentinel, and, for an
  allocator whose \<^verbatim>\<open>allocate\<close> is \<^verbatim>\<open>noexcept\<close>, turn a null pointer into the error
  \<^verbatim>\<open>std::errc::not_enough_memory\<close>. \<^verbatim>\<open>ExceptionType\<close> is the \<^verbatim>\<open>unique_ptr\<close> throughout the
  library, so the branch for a non-trivially-destructible type is the one taken.
\<close>

definition set_exception ::
  "allocator \<Rightarrow> 'e exception_ptr \<Rightarrow> ('v, 'e) promised_value \<Rightarrow> ('v, 'e) promised_value" where
  "set_exception A exception pv =
     (let pv' = pv\<lparr>m_storage := M_exception exception,
                   m_error_domain := Some Err_domain_throwing_exception\<rparr>
      in case A of
           Void_allocator \<Rightarrow> pv'
         | Noexcept_allocator \<Rightarrow>
             (if exception = None then set_error (error_errc not_enough_memory) pv' else pv')
         | Throwing_allocator \<Rightarrow> pv')"

definition rethrow :: "('v, 'e) promised_value \<Rightarrow> ('v, 'e) promised_value" where
  "rethrow pv =
     pv\<lparr>m_storage := M_exception None, m_error_domain := Some Err_domain_throwing_exception\<rparr>"

text \<open>
  \<^verbatim>\<open>propagate(other)\<close> returns the new state of \<^verbatim>\<open>*this\<close> and the state \<^verbatim>\<open>other\<close> is left in:
  moving from a \<^verbatim>\<open>unique_ptr\<close> leaves it null, and nothing else of \<^verbatim>\<open>other\<close> is written.
\<close>

definition propagate ::
  "('v, 'e) promised_value \<Rightarrow> ('v, 'e) promised_value \<Rightarrow>
   fault + (('v, 'e) promised_value \<times> ('v, 'e) promised_value)" where
  "propagate this other =
     (if has_exception other then
        (case m_storage other of
           M_exception p \<Rightarrow>
             Inr (this\<lparr>m_storage := M_exception p, m_error_domain := m_error_domain other\<rparr>,
                  other\<lparr>m_storage := M_exception None\<rparr>)
         | _ \<Rightarrow> Inl Undefined_behaviour)
      else
        (case m_storage other of
           M_error_code c \<Rightarrow>
             Inr (this\<lparr>m_storage := M_error_code c, m_error_domain := m_error_domain other\<rparr>,
                  other)
         | _ \<Rightarrow> Inl Undefined_behaviour))"

text \<open>
  The move constructor. The new object starts from the default member initialisers (null
  domain pointer, \<^verbatim>\<open>m_error_code{}\<close>); with a value in \<^verbatim>\<open>other\<close> only the value is moved.
\<close>

definition move_construct ::
  "('v, 'e) promised_value \<Rightarrow> fault + (('v, 'e) promised_value \<times> ('v, 'e) promised_value)" where
  "move_construct other =
     (if has_value other then
        (case m_storage other of
           M_value v \<Rightarrow> Inr (\<lparr>m_error_domain = None, m_storage = M_value v\<rparr>, other)
         | _ \<Rightarrow> Inl Undefined_behaviour)
      else if has_exception other then
        (case m_storage other of
           M_exception p \<Rightarrow>
             Inr (\<lparr>m_error_domain = m_error_domain other, m_storage = M_exception p\<rparr>,
                  other\<lparr>m_storage := M_exception None\<rparr>)
         | _ \<Rightarrow> Inl Undefined_behaviour)
      else
        (case m_storage other of
           M_error_code c \<Rightarrow>
             Inr (\<lparr>m_error_domain = m_error_domain other, m_storage = M_error_code c\<rparr>, other)
         | _ \<Rightarrow> Inl Undefined_behaviour))"

text \<open>
  \<^verbatim>\<open>make_exception_ptr\<close>. With \<^verbatim>\<open>Allocator = void\<close> the object is made by global \<^verbatim>\<open>new\<close>,
  whose outcome is an input: the address returned (never null), or a thrown
  \<^verbatim>\<open>std::bad_alloc\<close>. A throw leaves the coroutine body and reaches \<^verbatim>\<open>unhandled_exception()\<close>,
  which calls \<^verbatim>\<open>std::terminate()\<close>. The stored value's address is identified with the address
  of the allocated block.

  For every other \<^verbatim>\<open>Allocator\<close> the function is ill-formed: its return type is \<^verbatim>\<open>auto\<close>, and
  the two \<^verbatim>\<open>return\<close> statements of that branch have different types,
  \<^verbatim>\<open>exception_ptr<Type, Allocator>(nullptr)\<close> after a failed allocation and
  \<^verbatim>\<open>exception_ptr<exception_object, Allocator>(allocated)\<close> at the end. A program that raises
  an exception under such an allocator is rejected by the compiler, whatever the allocation
  would have done.
\<close>

datatype allocation = Allocated pointer | Bad_alloc

definition make_exception_ptr ::
  "allocator \<Rightarrow> allocation \<Rightarrow> type_info \<Rightarrow> 'e \<Rightarrow> fault + 'e exception_ptr" where
  "make_exception_ptr A alloc t v =
     (case A of
        Void_allocator \<Rightarrow>
          (case alloc of
             Bad_alloc \<Rightarrow> Inl Terminate
           | Allocated allocated \<Rightarrow>
               Inr (Some \<lparr>exn_type_id = t, exn_address = allocated, exn_value = v\<rparr>))
      | Noexcept_allocator \<Rightarrow> Inl Ill_formed
      | Throwing_allocator \<Rightarrow> Inl Ill_formed)"

text \<open>
  \<^verbatim>\<open>yield_value(Value &&)\<close>, the raise of a declared exception:
  \<^verbatim>\<open>m_value.set_exception(make_exception_ptr<exception, Allocator>(value))\<close>.
\<close>

definition yield_value_exception ::
  "allocator \<Rightarrow> allocation \<Rightarrow> type_info \<Rightarrow> 'e \<Rightarrow> ('v, 'e) promised_value \<Rightarrow>
   fault + ('v, 'e) promised_value" where
  "yield_value_exception A alloc t v pv =
     (case make_exception_ptr A alloc t v of
        Inl f \<Rightarrow> Inl f
      | Inr p \<Rightarrow> Inr (set_exception A p pv))"


section \<open>Coroutines\<close>

text \<open>
  What a run leaves behind is observed as a list of events: the statements of user bodies that
  were executed and the catch clauses that were called, in order. A run is the events so far
  and either a fault or a result; a fault ends the run and keeps the events before it.
\<close>

datatype event = Statement_executed nat | Clause_invoked nat

type_synonym 'a run = "event list \<times> (fault + 'a)"

definition bind_run :: "'a run \<Rightarrow> ('a \<Rightarrow> 'b run) \<Rightarrow> 'b run" where
  "bind_run m k =
     (case m of
        (evs, Inl f) \<Rightarrow> (evs, Inl f)
      | (evs, Inr x) \<Rightarrow> (case k x of (evs', r) \<Rightarrow> (evs @ evs', r)))"

definition lift_run :: "fault + 'a \<Rightarrow> 'a run" where
  "lift_run r = ([], r)"

definition emit :: "event \<Rightarrow> unit run" where
  "emit ev = ([ev], Inr ())"

text \<open>
  Coroutines start suspended (\<^verbatim>\<open>initial_suspend\<close> is \<^verbatim>\<open>suspend_always\<close>) and the library
  resumes each handle once, in \<^verbatim>\<open>await_ready\<close> or in \<^verbatim>\<open>invoke\<close>, then destroys it. A handle
  is therefore modelled by what that one \<^verbatim>\<open>resume()\<close> does: the events of the body up to its
  first suspension and the promise's slot at that point. \<open>None\<close> is the null handle that
  \<^verbatim>\<open>get_return_object_on_allocation_failure\<close> produces.
\<close>

type_synonym ('v, 'e) resumed = "('v, 'e) promised_value run"

type_synonym ('v, 'e) coroutine_handle = "('v, 'e) resumed option"

text \<open>\<^verbatim>\<open>await_ready\<close>: resume the awaited coroutine and report whether its slot holds a value.\<close>

definition await_ready :: "allocator \<Rightarrow> ('v, 'e) coroutine_handle \<Rightarrow> bool run" where
  "await_ready A m_handle =
     (if is_noexcept_allocator A \<and> m_handle = None then lift_run (Inr False)
      else
        (case m_handle of
           None \<Rightarrow> lift_run (Inl Undefined_behaviour)
         | Some r \<Rightarrow> bind_run r (\<lambda>value. lift_run (Inr (has_value value)))))"

text \<open>\<^verbatim>\<open>m_handle.promise().value()\<close>, after the handle has been resumed.\<close>

definition promise_value :: "('v, 'e) coroutine_handle \<Rightarrow> fault + ('v, 'e) promised_value" where
  "promise_value m_handle =
     (case m_handle of
        Some (evs, Inr value) \<Rightarrow> Inr value
      | _ \<Rightarrow> Inl Undefined_behaviour)"

text \<open>
  \<^verbatim>\<open>await_suspend\<close> returns the slot of the awaiting coroutine: the failure is propagated into
  it unless the awaited slot is a pending rethrow.
\<close>

definition await_suspend ::
  "allocator \<Rightarrow> ('v, 'e) coroutine_handle \<Rightarrow> ('v, 'e) promised_value \<Rightarrow>
   fault + ('v, 'e) promised_value" where
  "await_suspend A m_handle outer =
     (if is_noexcept_allocator A \<and> m_handle = None then
        Inr (set_error (error_errc not_enough_memory) outer)
      else
        (case promise_value m_handle of
           Inl f \<Rightarrow> Inl f
         | Inr value \<Rightarrow>
             (case is_rethrow value of
                Inl f \<Rightarrow> Inl f
              | Inr True \<Rightarrow> Inr outer
              | Inr False \<Rightarrow>
                  (case propagate outer value of
                     Inl f \<Rightarrow> Inl f
                   | Inr (outer', value') \<Rightarrow> Inr outer'))))"

definition await_resume :: "('v, 'e) coroutine_handle \<Rightarrow> fault + 'v" where
  "await_resume m_handle =
     (case promise_value m_handle of
        Inl f \<Rightarrow> Inl f
      | Inr value \<Rightarrow> value_of value)"

text \<open>
  The \<^verbatim>\<open>co_await\<close> expression of the language: when \<^verbatim>\<open>await_ready\<close> is true the body goes on
  with the result of \<^verbatim>\<open>await_resume\<close>; otherwise \<^verbatim>\<open>await_suspend\<close> is called, which returns
  \<^verbatim>\<open>void\<close>, so the awaiting coroutine stays suspended and control goes back to whoever resumed
  it. The awaiting coroutine's own slot is still as constructed at that point, since every
  operation that sets it (\<^verbatim>\<open>co_yield\<close>, \<^verbatim>\<open>co_return\<close>) is followed by a suspension.
\<close>

definition co_await ::
  "allocator \<Rightarrow> ('v, 'e) coroutine_handle \<Rightarrow> ('v \<Rightarrow> ('v, 'e) resumed) \<Rightarrow> ('v, 'e) resumed" where
  "co_await A awaited continue =
     bind_run (await_ready A awaited) (\<lambda>ready.
       if ready then bind_run (lift_run (await_resume awaited)) continue
       else lift_run (await_suspend A awaited promised_value_init))"

text \<open>
  The body of a fallible function, as far as this library sees it: \<^verbatim>\<open>co_return v\<close>; the three
  raise operations \<^verbatim>\<open>co_yield <exception>\<close>, \<^verbatim>\<open>co_yield <error>\<close> and \<^verbatim>\<open>co_yield rethrow\<close>, each
  with the statements that follow it; \<^verbatim>\<open>co_await\<close> of a nested fallible function with the
  rest of the body as a function of the awaited value; and any other statement, identified by
  a number. A raise of an exception carries the outcome of the allocation it will make and the
  descriptor of the thrown type. The awaited computation is \<open>None\<close> when the allocation of its
  frame failed under a \<^verbatim>\<open>noexcept\<close> allocator. All computations of one program share the value
  type \<open>'v\<close>.
\<close>

datatype ('v, 'e) body =
    Co_return 'v
  | Co_yield_exception allocation type_info 'e "('v, 'e) body"
  | Co_yield_error error "('v, 'e) body"
  | Co_yield_rethrow "('v, 'e) body"
  | Co_await "('v, 'e) body option" "'v \<Rightarrow> ('v, 'e) body"
  | Statement nat "('v, 'e) body"

text \<open>
  \<^verbatim>\<open>resume()\<close> on a coroutine at its initial suspension: \<^verbatim>\<open>return_value\<close> and the
  \<^verbatim>\<open>yield_value\<close> overloads set the slot, after which the coroutine suspends
  (\<^verbatim>\<open>final_suspend\<close> and every \<^verbatim>\<open>yield_value\<close> return \<^verbatim>\<open>suspend_always\<close>).
\<close>

primrec resume :: "allocator \<Rightarrow> ('v, 'e) body \<Rightarrow> ('v, 'e) resumed" where
  "resume A (Co_return v) = lift_run (Inr (set_value v promised_value_init))"
| "resume A (Co_yield_exception alloc t x rest) =
     lift_run (yield_value_exception A alloc t x promised_value_init)"
| "resume A (Co_yield_error err rest) = lift_run (Inr (set_error err promised_value_init))"
| "resume A (Co_yield_rethrow rest) = lift_run (Inr (rethrow promised_value_init))"
| "resume A (Co_await nested rest) =
     co_await A (map_option (resume A) nested) (\<lambda>v. resume A (rest v))"
| "resume A (Statement l rest) = bind_run (emit (Statement_executed l)) (\<lambda>_. resume A rest)"

text \<open>
  \<^verbatim>\<open>throwing::invoke\<close>, the constructor argument of \<^verbatim>\<open>result\<close>: resume the coroutine and move
  its slot out. The \<^verbatim>\<open>result\<close> object is its \<^verbatim>\<open>m_value\<close>.
\<close>

definition invoke :: "allocator \<Rightarrow> ('v, 'e) coroutine_handle \<Rightarrow> ('v, 'e) resumed" where
  "invoke A m_handle =
     (if is_noexcept_allocator A \<and> m_handle = None then
        lift_run (Inr (set_error (error_errc not_enough_memory) promised_value_init))
      else
        (case m_handle of
           None \<Rightarrow> lift_run (Inl Undefined_behaviour)
         | Some r \<Rightarrow>
             bind_run r (\<lambda>value.
               lift_run (case move_construct value of
                           Inl f \<Rightarrow> Inl f
                         | Inr (moved, value') \<Rightarrow> Inr moved))))"

text \<open>
  \<^verbatim>\<open>yield_value(std::tuple<const rethrow_t &, Exception &>)\<close>, reached by
  \<^verbatim>\<open>co_yield std::tie(rethrow, x)\<close>: \<^verbatim>\<open>m_value.propagate(x)\<close>.
\<close>

definition yield_value_propagate ::
  "('v, 'e) promised_value \<Rightarrow> ('v, 'e) promised_value \<Rightarrow> fault + ('v, 'e) promised_value" where
  "yield_value_propagate exception pv =
     (case propagate pv exception of
        Inl f \<Rightarrow> Inl f
      | Inr (pv', exception') \<Rightarrow> Inr pv')"


section \<open>Catch clauses and their dispatch\<close>

text \<open>
  A catch clause is a callable that returns either a plain value or a \<^verbatim>\<open>throwing\<close> (then
  \<^verbatim>\<open>IsThrowing\<close> holds for it); which of the two is fixed by its type. It takes no parameter
  (catch-all), or something an \<^verbatim>\<open>error\<close> converts to, or an object of a declared exception
  type, which it reads through the pointer that \<^verbatim>\<open>dyn_cast\<close> returned. Each clause carries a
  number by which its calls are told apart in the events.
\<close>

datatype ('a, 'v, 'e) handler =
    Returns "'a \<Rightarrow> 'v"
  | Returns_throwing "'a \<Rightarrow> ('v, 'e) body option"

datatype ('v, 'e) clause =
    Catch_all nat "(unit, 'v, 'e) handler"
  | Catch_error nat "(error, 'v, 'e) handler"
  | Catch_type nat type_info "(pointer, 'v, 'e) handler"

datatype ('v, 'e) clause_return =
    Value_returned 'v
  | Throwing_returned "('v, 'e) body option"

fun call_handler :: "('a, 'v, 'e) handler \<Rightarrow> 'a \<Rightarrow> ('v, 'e) clause_return" where
  "call_handler (Returns f) x = Value_returned (f x)"
| "call_handler (Returns_throwing f) x = Throwing_returned (f x)"

fun is_throwing_handler :: "('a, 'v, 'e) handler \<Rightarrow> bool" where
  "is_throwing_handler (Returns f) = False"
| "is_throwing_handler (Returns_throwing f) = True"

fun is_throwing :: "('v, 'e) clause \<Rightarrow> bool" where
  "is_throwing (Catch_all l h) = is_throwing_handler h"
| "is_throwing (Catch_error l h) = is_throwing_handler h"
| "is_throwing (Catch_type l t h) = is_throwing_handler h"

fun is_catch_all :: "('v, 'e) clause \<Rightarrow> bool" where
  "is_catch_all (Catch_all l h) = True"
| "is_catch_all (Catch_error l h) = False"
| "is_catch_all (Catch_type l t h) = False"

fun clause_label :: "('v, 'e) clause \<Rightarrow> nat" where
  "clause_label (Catch_all l h) = l"
| "clause_label (Catch_error l h) = l"
| "clause_label (Catch_type l t h) = l"

text \<open>
  Overload resolution between the two \<^verbatim>\<open>catch_exception_object\<close> templates: the coroutine
  overload is chosen when some clause is throwing or the last clause cannot be called without
  an argument; the plain one otherwise.
\<close>

definition uses_throwing_overload :: "('v, 'e) clause list \<Rightarrow> bool" where
  "uses_throwing_overload clauses =
     (clauses \<noteq> [] \<and> (list_ex is_throwing clauses \<or> \<not> is_catch_all (last clauses)))"

text \<open>
  What the compiler accepts: at least one clause, and (by the \<^verbatim>\<open>static_assert\<close>s) a catch-all
  clause only in the last position.
\<close>

fun well_formed :: "('v, 'e) clause list \<Rightarrow> bool" where
  "well_formed [] = False"
| "well_formed [c] = True"
| "well_formed (c # c' # cs) = (\<not> is_catch_all c \<and> well_formed (c' # cs))"

text \<open>
  The statements after the call of a throwing clause, the same at the three places of the
  source:
  \<^verbatim>\<open>if (catch_result.is_rethrow()) co_yield std::tie(rethrow, m_value);\<close>
  \<^verbatim>\<open>else if (!catch_result) co_yield std::tie(rethrow, catch_result.promised());\<close>
  \<^verbatim>\<open>co_return std::move(catch_result).value();\<close>
  The result is the slot of the dispatching coroutine.
\<close>

definition throwing_clause_outcome ::
  "('v, 'e) promised_value \<Rightarrow> ('v, 'e) promised_value \<Rightarrow> fault + ('v, 'e) promised_value" where
  "throwing_clause_outcome m_value catch_result =
     (case is_rethrow catch_result of
        Inl f \<Rightarrow> Inl f
      | Inr True \<Rightarrow> yield_value_propagate m_value promised_value_init
      | Inr False \<Rightarrow>
          (if \<not> has_value catch_result then
             yield_value_propagate catch_result promised_value_init
           else
             (case value_of catch_result of
                Inl f \<Rightarrow> Inl f
              | Inr v \<Rightarrow> Inr (set_value v promised_value_init))))"

text \<open>
  The call of a clause inside the coroutine overload (\<^verbatim>\<open>if constexpr (IsThrowing)\<close> and its
  \<^verbatim>\<open>else\<close>), given what the clause returned, and the call inside the plain overload, where
  no clause is throwing.
\<close>

definition invoke_clause_throwing ::
  "allocator \<Rightarrow> ('v, 'e) promised_value \<Rightarrow> nat \<Rightarrow> ('v, 'e) clause_return \<Rightarrow> ('v, 'e) resumed" where
  "invoke_clause_throwing A m_value l returned =
     bind_run (emit (Clause_invoked l)) (\<lambda>_.
       case returned of
         Throwing_returned t \<Rightarrow>
           bind_run (invoke A (map_option (resume A) t)) (\<lambda>catch_result.
             lift_run (throwing_clause_outcome m_value catch_result))
       | Value_returned v \<Rightarrow> lift_run (Inr (set_value v promised_value_init)))"

definition invoke_clause :: "nat \<Rightarrow> ('v, 'e) clause_return \<Rightarrow> 'v run" where
  "invoke_clause l returned =
     bind_run (emit (Clause_invoked l)) (\<lambda>_.
       case returned of
         Value_returned v \<Rightarrow> lift_run (Inr v)
       | Throwing_returned t \<Rightarrow> lift_run (Inl Ill_formed))"

text \<open>
  \<^verbatim>\<open>catch_object\<close>: null unless an exception is active and \<^verbatim>\<open>dyn_cast\<close> finds the clause's
  type among the bases of the exception's type.
\<close>

definition catch_object :: "type_info \<Rightarrow> dynamic_object \<Rightarrow> fault + pointer" where
  "catch_object catch_type exception =
     (if address exception \<noteq> nullptr then
        (case type_id exception of
           None \<Rightarrow> Inl Undefined_behaviour
         | Some most_derived \<Rightarrow> Inr (dyn_cast catch_type (address exception) most_derived))
      else Inr nullptr)"

text \<open>
  The two overloads of \<^verbatim>\<open>catch_exception_object\<close>, on the clause pack as a list. The first is
  a coroutine and is given by what resuming it does; \<open>remaining\<close> is what both of its
  no-match branches do: \<^verbatim>\<open>co_return co_await\<close> of the call on the remaining clauses when that
  call is itself a coroutine, \<^verbatim>\<open>co_return\<close> of its value when it is not, and
  \<^verbatim>\<open>co_yield std::tie(rethrow, m_value)\<close> when no clause remains. The frames of these nested
  coroutines are taken to be allocated successfully.
\<close>

fun catch_exception_object_throwing ::
    "allocator \<Rightarrow> ('v, 'e) promised_value \<Rightarrow> dynamic_object \<Rightarrow> ('v, 'e) clause list \<Rightarrow>
     ('v, 'e) resumed"
  and catch_exception_object ::
    "allocator \<Rightarrow> ('v, 'e) promised_value \<Rightarrow> dynamic_object \<Rightarrow> ('v, 'e) clause list \<Rightarrow> 'v run"
where
  "catch_exception_object_throwing A m_value exception [] = lift_run (Inl Ill_formed)"
| "catch_exception_object_throwing A m_value exception (clause # clauses) =
     (let remaining =
            (if clauses \<noteq> [] then
               (if uses_throwing_overload clauses then
                  co_await A (Some (catch_exception_object_throwing A m_value exception clauses))
                    (\<lambda>v. lift_run (Inr (set_value v promised_value_init)))
                else
                  bind_run (catch_exception_object A m_value exception clauses)
                    (\<lambda>v. lift_run (Inr (set_value v promised_value_init))))
             else lift_run (yield_value_propagate m_value promised_value_init))
      in case clause of
           Catch_all l h \<Rightarrow>
             (if clauses \<noteq> [] then lift_run (Inl Ill_formed)
              else invoke_clause_throwing A m_value l (call_handler h ()))
         | Catch_error l h \<Rightarrow>
             (if address exception \<noteq> nullptr then remaining
              else bind_run (lift_run (get_error m_value)) (\<lambda>error.
                     invoke_clause_throwing A m_value l (call_handler h error)))
         | Catch_type l catch_type h \<Rightarrow>
             bind_run (lift_run (catch_object catch_type exception)) (\<lambda>object.
               if object = nullptr then remaining
               else invoke_clause_throwing A m_value l (call_handler h object)))"
| "catch_exception_object A m_value exception [] = lift_run (Inl Ill_formed)"
| "catch_exception_object A m_value exception (clause # clauses) =
     (case clause of
        Catch_all l h \<Rightarrow>
          (if clauses \<noteq> [] then lift_run (Inl Ill_formed)
           else invoke_clause l (call_handler h ()))
      | Catch_error l h \<Rightarrow>
          (if address exception \<noteq> nullptr then
             catch_exception_object A m_value exception clauses
           else bind_run (lift_run (get_error m_value)) (\<lambda>error.
                  invoke_clause l (call_handler h error)))
      | Catch_type l catch_type h \<Rightarrow>
          bind_run (lift_run (catch_object catch_type exception)) (\<lambda>object.
            if object = nullptr then catch_exception_object A m_value exception clauses
            else invoke_clause l (call_handler h object)))"

text \<open>
  The argument that \<^verbatim>\<open>catches\<close> passes on: the dynamic object of the active exception, or the
  null dynamic object when an error is active.
\<close>

definition current_dynamic_object :: "('v, 'e) promised_value \<Rightarrow> fault + dynamic_object" where
  "current_dynamic_object m_value =
     (if has_exception m_value then
        (case exception_of m_value of
           Inl f \<Rightarrow> Inl f
         | Inr x \<Rightarrow> Inr (exception_dynamic_object x))
      else Inr null_dynamic_object)"

text \<open>The two overloads of \<^verbatim>\<open>result::catches\<close>; the first is a coroutine.\<close>

definition catches_throwing ::
  "allocator \<Rightarrow> ('v, 'e) promised_value \<Rightarrow> ('v, 'e) clause list \<Rightarrow> ('v, 'e) resumed" where
  "catches_throwing A m_value clauses =
     (if has_value m_value then
        bind_run (lift_run (value_of m_value))
          (\<lambda>v. lift_run (Inr (set_value v promised_value_init)))
      else
        bind_run (lift_run (current_dynamic_object m_value)) (\<lambda>exception.
          co_await A (Some (catch_exception_object_throwing A m_value exception clauses))
            (\<lambda>v. lift_run (Inr (set_value v promised_value_init)))))"

definition catches_plain ::
  "allocator \<Rightarrow> ('v, 'e) promised_value \<Rightarrow> ('v, 'e) clause list \<Rightarrow> 'v run" where
  "catches_plain A m_value clauses =
     (if has_value m_value then lift_run (value_of m_value)
      else
        bind_run (lift_run (current_dynamic_object m_value)) (\<lambda>exception.
          catch_exception_object A m_value exception clauses))"

text \<open>
  A call of \<^verbatim>\<open>catches\<close>: rejected by the compiler, or the coroutine overload (given by what
  resuming the returned coroutine does), or the plain overload.
\<close>

datatype ('v, 'e) catches_result =
    Rejected
  | Throwing "('v, 'e) resumed"
  | Plain "'v run"

definition catches ::
  "allocator \<Rightarrow> ('v, 'e) promised_value \<Rightarrow> ('v, 'e) clause list \<Rightarrow> ('v, 'e) catches_result" where
  "catches A m_value clauses =
     (if \<not> well_formed clauses then Rejected
      else if uses_throwing_overload clauses then Throwing (catches_throwing A m_value clauses)
      else Plain (catches_plain A m_value clauses))"

text \<open>
  \<^verbatim>\<open>try_catch(try_clause, catch_clause...)\<close>: the overload that is a coroutine does
  \<^verbatim>\<open>co_return co_await result(try_clause()).catches(catch_clause...)\<close>, the other one returns
  \<^verbatim>\<open>result(try_clause()).catches(catch_clause...)\<close>.
\<close>

definition try_catch ::
  "allocator \<Rightarrow> ('v, 'e) body option \<Rightarrow> ('v, 'e) clause list \<Rightarrow> ('v, 'e) catches_result" where
  "try_catch A try_clause catch_clause =
     (if \<not> well_formed catch_clause then Rejected
      else if uses_throwing_overload catch_clause then
        Throwing
          (bind_run (invoke A (map_option (resume A) try_clause)) (\<lambda>m_value.
             co_await A (Some (catches_throwing A m_value catch_clause))
               (\<lambda>v. lift_run (Inr (set_value v promised_value_init)))))
      else
        Plain
          (bind_run (invoke A (map_option (resume A) try_clause)) (\<lambda>m_value.
             catches_plain A m_value catch_clause)))"


section \<open>Vocabulary for the statements\<close>

text \<open>
  Whether the domain pointer and the stored union member of a slot agree, and whether a slot
  holds a failure that can be dispatched: an error, or an exception with its object.
\<close>

definition agrees :: "('v, 'e) promised_value \<Rightarrow> bool" where
  "agrees pv =
     (case m_storage pv of
        M_error_code c \<Rightarrow> has_error pv
      | M_exception p \<Rightarrow> has_exception pv
      | M_value v \<Rightarrow> has_value pv)"

definition holds_failure :: "('v, 'e) promised_value \<Rightarrow> bool" where
  "holds_failure pv =
     (case m_storage pv of
        M_error_code c \<Rightarrow> has_error pv
      | M_exception None \<Rightarrow> False
      | M_exception (Some x) \<Rightarrow> has_exception pv \<and> exn_address x \<noteq> nullptr
      | M_value v \<Rightarrow> False)"

text \<open>
  Whether a clause matches: a catch-all always; an error clause when no exception is active;
  a typed clause when an exception is active and \<^verbatim>\<open>dyn_cast\<close> to the clause's type is not null.
\<close>

fun matches :: "dynamic_object \<Rightarrow> ('v, 'e) clause \<Rightarrow> bool" where
  "matches exception (Catch_all l h) = True"
| "matches exception (Catch_error l h) = (address exception = nullptr)"
| "matches exception (Catch_type l t h) =
     (case catch_object t exception of Inl f \<Rightarrow> False | Inr object \<Rightarrow> object \<noteq> nullptr)"

text \<open>
  Whether a clause matches structurally, read off the declared base graph and not off the
  dispatcher: a catch-all always; an error clause when an error is active; a typed clause when
  an exception is active and the clause's type is the exception's type or one of its declared
  bases, direct or indirect.
\<close>

fun structurally_matches :: "dynamic_object \<Rightarrow> ('v, 'e) clause \<Rightarrow> bool" where
  "structurally_matches exception (Catch_all l h) = True"
| "structurally_matches exception (Catch_error l h) = (address exception = nullptr)"
| "structurally_matches exception (Catch_type l t h) =
     (address exception \<noteq> nullptr \<and>
      (case type_id exception of
         None \<Rightarrow> False
       | Some most_derived \<Rightarrow> reaches t most_derived))"

text \<open>
  Whether every base sub-object of an object, direct or indirect, lies at a non-null address:
  the casts of the type's table, applied to the object's address along each chain of bases,
  never give null. A \<^verbatim>\<open>static_cast\<close> of a non-null pointer to a base is never null, so this
  holds of every exception object that a program has.
\<close>

fun base_objects_non_null :: "pointer \<Rightarrow> type_info \<Rightarrow> bool"
  and base_objects_non_null_bases ::
    "pointer \<Rightarrow> (type_info \<times> (pointer \<Rightarrow> pointer)) list \<Rightarrow> bool"
where
  "base_objects_non_null p (Type_info a bs) = base_objects_non_null_bases p bs"
| "base_objects_non_null_bases p [] = True"
| "base_objects_non_null_bases p (b # bs) =
     ((snd b) p \<noteq> nullptr \<and> base_objects_non_null ((snd b) p) (fst b) \<and>
      base_objects_non_null_bases p bs)"

definition placed :: "dynamic_object \<Rightarrow> bool" where
  "placed exception =
     (case type_id exception of
        None \<Rightarrow> True
      | Some most_derived \<Rightarrow> base_objects_non_null (address exception) most_derived)"

text \<open>What a clause returns when it is called with the value it matched.\<close>

fun clause_returns ::
  "('v, 'e) promised_value \<Rightarrow> dynamic_object \<Rightarrow> ('v, 'e) clause \<Rightarrow> fault + ('v, 'e) clause_return"
where
  "clause_returns m_value exception (Catch_all l h) = Inr (call_handler h ())"
| "clause_returns m_value exception (Catch_error l h) =
     (case get_error m_value of Inl f \<Rightarrow> Inl f | Inr error \<Rightarrow> Inr (call_handler h error))"
| "clause_returns m_value exception (Catch_type l t h) =
     (case catch_object t exception of Inl f \<Rightarrow> Inl f | Inr object \<Rightarrow> Inr (call_handler h object))"

text \<open>The clauses called during a run, and the events of a call of \<^verbatim>\<open>catches\<close>.\<close>

fun invoked_clauses :: "event list \<Rightarrow> nat list" where
  "invoked_clauses [] = []"
| "invoked_clauses (Statement_executed l # evs) = invoked_clauses evs"
| "invoked_clauses (Clause_invoked l # evs) = l # invoked_clauses evs"

fun catches_events :: "('v, 'e) catches_result \<Rightarrow> event list" where
  "catches_events Rejected = []"
| "catches_events (Throwing r) = fst r"
| "catches_events (Plain r) = fst r"


section \<open>The example program\<close>

text \<open>
  \<^verbatim>\<open>foo\<close> and the try clause of \<^verbatim>\<open>main\<close> from \<^verbatim>\<open>zpp.cc\<close>, and its two catch clauses. The
  exception is a \<^verbatim>\<open>std::runtime_error\<close>, whose declared base is \<^verbatim>\<open>std::exception\<close>; the two
  \<^verbatim>\<open>println\<close> statements of the try clause are statements 1 and 2.
\<close>

definition std_exception :: type_info where
  "std_exception = Type_info 300 []"

definition std_runtime_error :: type_info where
  "std_runtime_error = Type_info 301 [(std_exception, \<lambda>p. p)]"

definition foo :: "bool \<Rightarrow> (int, string) body" where
  "foo ok =
     (if \<not> ok then
        Co_yield_exception (Allocated 4096) std_runtime_error ''My runtime error'' (Co_return 1337)
      else Co_return 1337)"

definition main_try :: "bool \<Rightarrow> (int, string) body" where
  "main_try ok =
     Statement 1 (Co_await (Some (foo ok)) (\<lambda>v. Statement 2 (Co_return 0)))"

definition main_clauses :: "(int, string) clause list" where
  "main_clauses =
     [Catch_type 1 std_exception (Returns (\<lambda>error. 1)), Catch_all 2 (Returns (\<lambda>_. 1))]"



text \<open>
  The slot that \<^verbatim>\<open>foo(false)\<close> leaves behind and the dynamic object of its exception, and two
  throwing catch clauses: one that rethrows and one that raises an error of its own.
\<close>

definition raised :: "(int, string) promised_value" where
  "raised =
     \<lparr>m_error_domain = Some Err_domain_throwing_exception,
      m_storage = M_exception (Some \<lparr>exn_type_id = std_runtime_error, exn_address = 4096,
                                    exn_value = ''My runtime error''\<rparr>)\<rparr>"

definition raised_object :: dynamic_object where
  "raised_object = \<lparr>type_id = Some std_runtime_error, address = 4096\<rparr>"

definition rethrowing_clause :: "(int, string) clause" where
  "rethrowing_clause =
     Catch_type 1 std_exception (Returns_throwing (\<lambda>error. Some (Co_yield_rethrow (Co_return 0))))"

definition failing_clause :: "(int, string) clause" where
  "failing_clause =
     Catch_type 1 std_exception
       (Returns_throwing (\<lambda>error. Some (Co_yield_error (error_errc 5) (Co_return 0))))"


section \<open>Example type hierarchies\<close>

text \<open>
  A chain \<open>D \<rightarrow> C \<rightarrow> B \<rightarrow> A\<close> with an unrelated type \<open>X\<close>, and a diamond in which \<open>A\<close> is a
  non-virtual base of both \<open>B1\<close> and \<open>B2\<close>, the second base sub-object lying 16 bytes into the
  derived object.
\<close>

definition chain_A :: type_info where "chain_A = Type_info 100 []"
definition chain_B :: type_info where "chain_B = Type_info 101 [(chain_A, \<lambda>p. p)]"
definition chain_C :: type_info where "chain_C = Type_info 102 [(chain_B, \<lambda>p. p + 8)]"
definition chain_D :: type_info where "chain_D = Type_info 103 [(chain_C, \<lambda>p. p)]"
definition chain_X :: type_info where "chain_X = Type_info 104 []"

definition diamond_B1 :: type_info where "diamond_B1 = Type_info 201 [(chain_A, \<lambda>p. p)]"
definition diamond_B2 :: type_info where "diamond_B2 = Type_info 202 [(chain_A, \<lambda>p. p)]"
definition diamond_D :: type_info where
  "diamond_D = Type_info 203 [(diamond_B1, \<lambda>p. p), (diamond_B2, \<lambda>p. p + 16)]"


section \<open>Error domains\<close>

text \<open>
  Claim C9. The success predicate of a domain depends on nothing but the code and the domain's
  success code (not on the name or the message table): it holds exactly when the code equals
  the success code, and so fails for every other code.
\<close>

theorem error_domain_success:
  "success (make_error_domain name sc msgs) code = (code = sc) \<and>
   success (make_error_domain name' sc msgs') code = success (make_error_domain name sc msgs) code \<and>
   (code \<noteq> sc \<longrightarrow> \<not> success (make_error_domain name sc msgs) code) \<and>
   success d code = (code = m_success_code d)"
  by (simp add: success_def make_error_domain_def)

theorem error_domain_success_witness:
  "success (make_error_domain ''my_error'' 0 (\<lambda>c. ''Unspecified error.'')) 0 \<and>
   (2::int) \<noteq> 0 \<and> \<not> success (make_error_domain ''my_error'' 0 (\<lambda>c. ''Unspecified error.'')) 2"
  using error_domain_success
          [of "''my_error''" 0 "\<lambda>c. ''Unspecified error.''" 2 "[]" "\<lambda>c. []"
              "make_error_domain [] 0 (\<lambda>c. [])"]
        error_domain_success
          [of "''my_error''" 0 "\<lambda>c. ''Unspecified error.''" 0 "[]" "\<lambda>c. []"
              "make_error_domain [] 0 (\<lambda>c. [])"]
  by simp


section \<open>The search of \<^verbatim>\<open>dyn_cast\<close>\<close>

lemma dyn_cast_bases_first_non_null:
  "dyn_cast_bases base p bs = first_non_null (map (\<lambda>b. dyn_cast base ((snd b) p) (fst b)) bs)"
  by (induction bs) (simp_all add: Let_def)

lemma dyn_cast_unfold:
  "dyn_cast base p t =
     (if info_addr t = info_addr base then p else first_non_null (base_results base p t))"
  by (cases t) (simp add: base_results_def dyn_cast_bases_first_non_null)

lemma not_reaches_null:
  "\<not> reaches base t \<longrightarrow> dyn_cast base p t = nullptr"
  "\<not> reaches_bases base bs \<longrightarrow> dyn_cast_bases base p bs = nullptr"
  by (induction base p t and base p bs rule: dyn_cast_dyn_cast_bases.induct)
     (simp_all add: Let_def)

lemma first_non_null_append:
  "\<forall>r\<in>set pre. r = nullptr \<Longrightarrow> first_non_null (pre @ rs) = first_non_null rs"
  by (induction pre) simp_all

text \<open>
  Claim C2. \<^verbatim>\<open>dyn_cast\<close> returns the instance pointer unchanged when the instance type is the
  target type; otherwise it is the first non-null result among the recursive searches through
  the direct bases, taken in declaration order with each base's cast applied to the pointer,
  and null when there is none. In particular it is null when no chain of bases reaches the
  target type.
\<close>

theorem dyn_cast_search:
  "dyn_cast base p t =
     (if info_addr t = info_addr base then p else first_non_null (base_results base p t)) \<and>
   (\<not> reaches base t \<longrightarrow> dyn_cast base p t = nullptr)"
  using dyn_cast_unfold not_reaches_null(1) by blast

theorem dyn_cast_search_witness:
  "dyn_cast chain_B 1000 chain_D = 1008 \<and>
   dyn_cast chain_D 1000 chain_D = 1000 \<and>
   \<not> reaches chain_X chain_D \<and> dyn_cast chain_X 1000 chain_D = nullptr"
  using dyn_cast_search [of chain_B 1000 chain_D] dyn_cast_search [of chain_D 1000 chain_D]
        dyn_cast_search [of chain_X 1000 chain_D]
  by (simp add: chain_A_def chain_B_def chain_C_def chain_D_def chain_X_def base_results_def)

text \<open>
  Claim C8. When the target is not the instance type itself, the result is that of the first
  declared base whose search succeeds, whatever bases are declared after it: a second path to
  the same target, as in a diamond, is neither examined nor reported, and the cast does not
  fail because of it.
\<close>

theorem dyn_cast_first_path_wins:
  assumes "info_addr t \<noteq> info_addr base"
    and "info_bases t = pre @ b # post"
    and "\<forall>b'\<in>set pre. dyn_cast base ((snd b') p) (fst b') = nullptr"
    and "dyn_cast base ((snd b) p) (fst b) \<noteq> nullptr"
  shows "dyn_cast base p t = dyn_cast base ((snd b) p) (fst b)"
  using assms by (simp add: dyn_cast_unfold base_results_def first_non_null_append)

theorem dyn_cast_first_path_wins_witness:
  "dyn_cast chain_A 1000 diamond_D = 1000 \<and>
   dyn_cast chain_A ((\<lambda>p. p + 16) 1000) diamond_B2 = 1016 \<and>
   info_bases diamond_D = [] @ (diamond_B1, \<lambda>p. p) # [(diamond_B2, \<lambda>p. p + 16)]"
proof -
  have a: "info_addr diamond_D \<noteq> info_addr chain_A"
    by (simp add: diamond_D_def chain_A_def)
  have b: "info_bases diamond_D = [] @ (diamond_B1, \<lambda>p. p) # [(diamond_B2, \<lambda>p. p + 16)]"
    by (simp add: diamond_D_def)
  have c: "\<forall>b'\<in>set []. dyn_cast chain_A ((snd b') 1000) (fst b') = nullptr"
    by simp
  have d: "dyn_cast chain_A ((snd (diamond_B1, \<lambda>p. p)) 1000) (fst (diamond_B1, \<lambda>p::pointer. p))
             \<noteq> nullptr"
    by (simp add: diamond_B1_def chain_A_def)
  have "dyn_cast chain_A 1000 diamond_D = 1000"
    using dyn_cast_first_path_wins [OF a b c d] by (simp add: diamond_B1_def chain_A_def)
  moreover have "dyn_cast chain_A ((\<lambda>p. p + 16) 1000) diamond_B2 = 1016"
    by (simp add: diamond_B2_def chain_A_def)
  ultimately show ?thesis using b by simp
qed


section \<open>States of the promised value\<close>

text \<open>
  Claim C10. A default-constructed promised value reports neither a value nor an exception
  but an error, namely code 0 of the sentinel domain \<^verbatim>\<open>throwing_error\<close>. In every state exactly
  one of the three queries holds, and two slots with the same domain pointer answer the three
  queries alike.
\<close>

theorem promised_value_init_state:
  "\<not> has_value (promised_value_init :: ('v, 'e) promised_value) \<and>
   \<not> has_exception (promised_value_init :: ('v, 'e) promised_value) \<and>
   has_error (promised_value_init :: ('v, 'e) promised_value) \<and>
   get_error (promised_value_init :: ('v, 'e) promised_value) =
     Inr \<lparr>m_domain = Err_domain_throwing_error, m_code = 0\<rparr> \<and>
   ((has_value pv \<and> \<not> has_exception pv \<and> \<not> has_error pv) \<or>
    (\<not> has_value pv \<and> has_exception pv \<and> \<not> has_error pv) \<or>
    (\<not> has_value pv \<and> \<not> has_exception pv \<and> has_error pv)) \<and>
   (m_error_domain pv = m_error_domain pv' \<longrightarrow>
      has_value pv = has_value pv' \<and> has_exception pv = has_exception pv' \<and>
      has_error pv = has_error pv')"
  by (auto simp add: promised_value_init_def has_value_def has_exception_def has_error_def
        get_error_def)

theorem promised_value_init_state_witness:
  "has_value (set_value (1337::int) (promised_value_init :: (int, unit) promised_value)) \<and>
   \<not> has_exception (set_value (1337::int) (promised_value_init :: (int, unit) promised_value)) \<and>
   \<not> has_error (set_value (1337::int) (promised_value_init :: (int, unit) promised_value)) \<and>
   m_error_domain (set_error (error_errc 2) (promised_value_init :: (int, unit) promised_value)) =
     m_error_domain (set_error (error_errc 5) promised_value_init :: (int, unit) promised_value) \<and>
   has_error (set_error (error_errc 2) (promised_value_init :: (int, unit) promised_value)) =
     has_error (set_error (error_errc 5) promised_value_init :: (int, unit) promised_value)"
  using promised_value_init_state
    [of "set_value (1337::int) (promised_value_init :: (int, unit) promised_value)"
        "set_value (1337::int) (promised_value_init :: (int, unit) promised_value)"]
    promised_value_init_state
    [of "set_error (error_errc 2) (promised_value_init :: (int, unit) promised_value)"
        "set_error (error_errc 5) (promised_value_init :: (int, unit) promised_value)"]
  by (auto simp add: set_value_def set_error_def has_value_def error_errc_def)

text \<open>
  Claim C6. \<^verbatim>\<open>set_exception\<close> does its part: handed a null exception pointer under an
  allocator whose \<^verbatim>\<open>allocate\<close> is \<^verbatim>\<open>noexcept\<close>, it leaves the slot reporting the error
  \<^verbatim>\<open>not_enough_memory\<close> of the \<^verbatim>\<open>std::errc\<close> domain, with the domain pointer and the stored
  union member in agreement. But no raise reaches it with such a pointer: under that allocator
  \<^verbatim>\<open>make_exception_ptr\<close>, and with it every raise of an exception, is rejected by the compiler,
  so the outcome that the claim describes is never produced.
\<close>

theorem raise_under_noexcept_allocator_rejected:
  "make_exception_ptr Noexcept_allocator (Allocated nullptr) t v = Inl Ill_formed \<and>
   yield_value_exception Noexcept_allocator (Allocated nullptr) t v pv = Inl Ill_formed \<and>
   resume Noexcept_allocator (Co_yield_exception (Allocated nullptr) t v rest) =
     ([], Inl Ill_formed) \<and>
   set_exception Noexcept_allocator None pv =
     pv\<lparr>m_error_domain := Some Err_domain_errc, m_storage := M_error_code not_enough_memory\<rparr> \<and>
   has_error (set_exception Noexcept_allocator None pv) \<and>
   \<not> has_exception (set_exception Noexcept_allocator None pv) \<and>
   \<not> has_value (set_exception Noexcept_allocator None pv) \<and>
   get_error (set_exception Noexcept_allocator None pv) = Inr (error_errc not_enough_memory) \<and>
   is_rethrow (set_exception Noexcept_allocator None pv) = Inr False"
  by (simp add: make_exception_ptr_def yield_value_exception_def set_exception_def set_error_def
        error_errc_def has_error_def has_value_def has_exception_def get_error_def is_rethrow_def
        lift_run_def)

theorem raise_under_noexcept_allocator_rejected_witness:
  "resume Noexcept_allocator
     (Co_yield_exception (Allocated nullptr) std_runtime_error ''My runtime error''
        (Co_return (1337::int))) =
     ([], Inl Ill_formed) \<and>
   get_error (set_exception Noexcept_allocator (None :: string exception_ptr)
                (promised_value_init :: (int, string) promised_value)) =
     Inr \<lparr>m_domain = Err_domain_errc, m_code = not_enough_memory\<rparr>"
proof -
  note t = raise_under_noexcept_allocator_rejected
             [of std_runtime_error "''My runtime error''"
                 "promised_value_init :: (int, string) promised_value" "Co_return (1337::int)"]
  from t have a: "resume Noexcept_allocator
     (Co_yield_exception (Allocated nullptr) std_runtime_error ''My runtime error''
        (Co_return (1337::int))) =
     ([], Inl Ill_formed)"
    by blast
  from t have b: "get_error (set_exception Noexcept_allocator (None :: string exception_ptr)
                    (promised_value_init :: (int, string) promised_value)) =
                  Inr (error_errc not_enough_memory)"
    by blast
  from a b show ?thesis by (simp add: error_errc_def)
qed


section \<open>Runs and awaiting\<close>

lemma bind_run_fault [simp]: "bind_run (evs, Inl f) k = (evs, Inl f)"
  by (simp add: bind_run_def)

lemma bind_run_result [simp]: "bind_run (evs, Inr x) k = (evs @ fst (k x), snd (k x))"
  by (simp add: bind_run_def split: prod.splits)

lemma bind_run_lift_fault [simp]: "bind_run (lift_run (Inl f)) k = ([], Inl f)"
  by (simp add: lift_run_def)

lemma bind_run_lift_result [simp]: "bind_run (lift_run (Inr x)) k = k x"
  by (simp add: lift_run_def)

lemma bind_run_emit [simp]: "bind_run (emit ev) k = (ev # fst (k ()), snd (k ()))"
  by (simp add: emit_def)

lemma invoked_clauses_append [simp]:
  "invoked_clauses (xs @ ys) = invoked_clauses xs @ invoked_clauses ys"
  by (induction xs rule: invoked_clauses.induct) simp_all

lemma fst_bind_run:
  "fst (bind_run m k) = (case snd m of Inl f \<Rightarrow> fst m | Inr x \<Rightarrow> fst m @ fst (k x))"
  by (cases m) (simp add: bind_run_def split: sum.splits prod.splits)

lemma agrees_init [simp]: "agrees promised_value_init"
  by (simp add: agrees_def promised_value_init_def has_error_def has_value_def has_exception_def)

lemma agrees_set_value [simp]: "agrees (set_value v pv)"
  by (simp add: agrees_def set_value_def has_value_def)

lemma agrees_set_error [simp]:
  "agrees (set_error err pv) = (m_domain err \<noteq> Err_domain_throwing_exception)"
  by (simp add: agrees_def set_error_def has_error_def has_value_def has_exception_def)


lemma co_await_return_id:
  assumes "\<And>pv. snd r = Inr pv \<Longrightarrow> agrees pv \<and> is_rethrow pv = Inr False"
  shows "co_await A (Some r) (\<lambda>v. lift_run (Inr (set_value v promised_value_init))) = r"
proof (cases r)
  case (Pair evs s)
  show ?thesis
  proof (cases s)
    case (Inl f)
    with Pair show ?thesis by (simp add: co_await_def await_ready_def)
  next
    case (Inr pv)
    with Pair assms have a: "agrees pv" and b: "is_rethrow pv = Inr False" by auto
    obtain d st where pv: "pv = \<lparr>m_error_domain = d, m_storage = st\<rparr>" by (cases pv) auto
    show ?thesis
    proof (cases st)
      case (M_error_code c)
      with a b pv Pair Inr show ?thesis
        by (auto simp add: co_await_def await_ready_def await_suspend_def await_resume_def
            promise_value_def agrees_def has_error_def has_value_def has_exception_def
            is_rethrow_def propagate_def promised_value_init_def lift_run_def)
    next
      case (M_exception p)
      with a b pv Pair Inr show ?thesis
        by (auto simp add: co_await_def await_ready_def await_suspend_def await_resume_def
            promise_value_def agrees_def has_error_def has_value_def has_exception_def
            is_rethrow_def propagate_def promised_value_init_def lift_run_def)
    next
      case (M_value v)
      with a b pv Pair Inr show ?thesis
        by (auto simp add: co_await_def await_ready_def await_suspend_def await_resume_def
            promise_value_def agrees_def has_error_def has_value_def has_exception_def
            is_rethrow_def propagate_def promised_value_init_def lift_run_def value_of_def
            set_value_def)
    qed
  qed
qed

lemma propagate_init_failure:
  assumes "agrees pv" "\<not> has_value pv"
  shows "yield_value_propagate pv promised_value_init = Inr pv"
proof -
  obtain d st where pv: "pv = \<lparr>m_error_domain = d, m_storage = st\<rparr>" by (cases pv) auto
  with assms show ?thesis
    by (cases st)
       (simp_all add: yield_value_propagate_def propagate_def agrees_def has_error_def
          has_value_def has_exception_def promised_value_init_def)
qed

lemma holds_failure_agrees:
  "holds_failure pv \<Longrightarrow> agrees pv \<and> \<not> has_value pv \<and> is_rethrow pv = Inr False"
  by (auto simp add: holds_failure_def agrees_def has_error_def is_rethrow_def
      has_exception_def has_value_def split: storage.splits option.splits)

text \<open>
  Claim C7. Let the source hold a failure, with its domain pointer and union member in
  agreement, and let the destination be a slot as constructed. \<^verbatim>\<open>propagate\<close> succeeds and the
  destination becomes what the source was: the same domain pointer and the same error code or
  exception object. A source that held an exception object is left with the null pointer, so
  the object has one owner, the destination. The source is not read again: the raise
  \<^verbatim>\<open>co_yield std::tie(rethrow, source)\<close> and \<^verbatim>\<open>await_suspend\<close>, the two callers, pass on the
  destination alone, and the \<^verbatim>\<open>co_await\<close> ends the run of the awaiting body with it, whatever
  the rest of the body is.
\<close>

theorem propagate_moves_failure:
  assumes "agrees src" "\<not> has_value src"
  shows "\<exists>src'. propagate promised_value_init src = Inr (src, src') \<and>
           (\<forall>x. m_storage src = M_exception (Some x) \<longrightarrow>
                m_storage src' = M_exception None \<and> exception_of src' = Inl Undefined_behaviour) \<and>
           yield_value_propagate src promised_value_init = Inr src \<and>
           (is_rethrow src = Inr False \<longrightarrow>
              await_suspend A (Some (evs, Inr src)) promised_value_init = Inr src \<and>
              co_await A (Some (evs, Inr src)) continue = (evs, Inr src))"
proof -
  obtain d st where src: "src = \<lparr>m_error_domain = d, m_storage = st\<rparr>" by (cases src) auto
  from propagate_init_failure [OF assms]
  obtain src' where p: "propagate promised_value_init src = Inr (src, src')"
    by (auto simp add: yield_value_propagate_def split: sum.splits)
  have moved: "\<forall>x. m_storage src = M_exception (Some x) \<longrightarrow>
                m_storage src' = M_exception None \<and> exception_of src' = Inl Undefined_behaviour"
    using p assms unfolding src
    by (auto simp add: propagate_def agrees_def exception_of_def has_exception_def
        split: if_splits)
  have y: "yield_value_propagate src promised_value_init = Inr src"
    using assms by (rule propagate_init_failure)
  have s: "is_rethrow src = Inr False \<Longrightarrow>
             await_suspend A (Some (evs, Inr src)) promised_value_init = Inr src"
    using p by (simp add: await_suspend_def promise_value_def)
  have c: "is_rethrow src = Inr False \<Longrightarrow>
             co_await A (Some (evs, Inr src)) continue = (evs, Inr src)"
    using s assms(2) by (simp add: co_await_def await_ready_def lift_run_def)
  from p moved y s c show ?thesis by blast
qed

theorem propagate_moves_failure_witness:
  "agrees (set_error (error_errc 5) (promised_value_init :: (int, string) promised_value)) \<and>
   \<not> has_value (set_error (error_errc 5) (promised_value_init :: (int, string) promised_value)) \<and>
   yield_value_propagate (set_error (error_errc 5) promised_value_init)
     (promised_value_init :: (int, string) promised_value) =
     Inr (set_error (error_errc 5) promised_value_init) \<and>
   agrees raised \<and> \<not> has_value raised \<and> is_rethrow raised = Inr False \<and>
   co_await Void_allocator (Some ([], Inr raised))
     (\<lambda>v. resume Void_allocator (Statement 2 (Co_return 0))) = ([], Inr raised) \<and>
   fst (projr (propagate promised_value_init raised)) = raised \<and>
   m_storage (snd (projr (propagate promised_value_init raised))) = M_exception None"
proof -
  have e: "agrees (set_error (error_errc 5) (promised_value_init :: (int, string) promised_value))"
    "\<not> has_value (set_error (error_errc 5) (promised_value_init :: (int, string) promised_value))"
    by (simp_all add: set_error_def error_errc_def agrees_def has_error_def has_value_def
        has_exception_def promised_value_init_def)
  have r: "agrees raised" "\<not> has_value raised" "is_rethrow raised = Inr False"
    "m_storage raised = M_exception (Some \<lparr>exn_type_id = std_runtime_error, exn_address = 4096,
                                    exn_value = ''My runtime error''\<rparr>)"
    by (simp_all add: raised_def agrees_def has_value_def has_exception_def is_rethrow_def)
  from propagate_moves_failure [OF e, of Void_allocator "[]" "\<lambda>v. lift_run (Inr promised_value_init)"]
  have a: "yield_value_propagate (set_error (error_errc 5) promised_value_init)
     (promised_value_init :: (int, string) promised_value) =
     Inr (set_error (error_errc 5) promised_value_init)"
    by blast
  from propagate_moves_failure
         [OF r(1,2), of Void_allocator "[]" "\<lambda>v. resume Void_allocator (Statement 2 (Co_return 0))"]
       r(3,4)
  obtain src' where b: "propagate promised_value_init raised = Inr (raised, src')"
    "m_storage src' = M_exception None"
    "co_await Void_allocator (Some ([], Inr raised))
       (\<lambda>v. resume Void_allocator (Statement 2 (Co_return 0))) = ([], Inr raised)"
    by blast
  from e r a b show ?thesis by simp
qed

lemma throwing_clause_outcome_cases:
  assumes "holds_failure m_value" "agrees catch_result"
  shows "is_rethrow catch_result = Inr True \<Longrightarrow>
           throwing_clause_outcome m_value catch_result = Inr m_value"
    and "is_rethrow catch_result = Inr False \<Longrightarrow> \<not> has_value catch_result \<Longrightarrow>
           throwing_clause_outcome m_value catch_result = Inr catch_result"
    and "has_value catch_result \<Longrightarrow>
           \<exists>v. value_of catch_result = Inr v \<and>
               throwing_clause_outcome m_value catch_result = Inr (set_value v promised_value_init)"
proof -
  show "is_rethrow catch_result = Inr True \<Longrightarrow>
           throwing_clause_outcome m_value catch_result = Inr m_value"
    using assms(1)
    by (simp add: throwing_clause_outcome_def propagate_init_failure holds_failure_agrees)
  show "is_rethrow catch_result = Inr False \<Longrightarrow> \<not> has_value catch_result \<Longrightarrow>
           throwing_clause_outcome m_value catch_result = Inr catch_result"
    using assms(2) by (simp add: throwing_clause_outcome_def propagate_init_failure)
  show "has_value catch_result \<Longrightarrow>
           \<exists>v. value_of catch_result = Inr v \<and>
               throwing_clause_outcome m_value catch_result = Inr (set_value v promised_value_init)"
    using assms(2)
    by (auto simp add: throwing_clause_outcome_def agrees_def is_rethrow_def has_value_def
        has_exception_def has_error_def value_of_def split: storage.splits)
qed

lemma throwing_clause_outcome_settled:
  assumes "holds_failure m_value" "throwing_clause_outcome m_value catch_result = Inr pv"
  shows "agrees pv \<and> is_rethrow pv = Inr False"
proof -
  obtain d st where cr: "catch_result = \<lparr>m_error_domain = d, m_storage = st\<rparr>"
    by (cases catch_result) auto
  obtain d' st' where mv: "m_value = \<lparr>m_error_domain = d', m_storage = st'\<rparr>"
    by (cases m_value) auto
  from assms show ?thesis unfolding cr mv
    by (auto simp add: throwing_clause_outcome_def yield_value_propagate_def propagate_def
        holds_failure_def agrees_def is_rethrow_def has_value_def has_exception_def has_error_def
        value_of_def set_value_def promised_value_init_def
        split: storage.splits option.splits if_splits sum.splits bool.splits)
qed

lemma uses_throwing_overload_Cons:
  "cs \<noteq> [] \<Longrightarrow> uses_throwing_overload (c # cs) = (is_throwing c \<or> uses_throwing_overload cs)"
  by (auto simp add: uses_throwing_overload_def)

lemma well_formed_Cons:
  "cs \<noteq> [] \<Longrightarrow> well_formed (c # cs) = (\<not> is_catch_all c \<and> well_formed cs)"
  by (cases cs) simp_all

lemma well_formed_catch_all: "well_formed (c # cs) \<Longrightarrow> is_catch_all c \<Longrightarrow> cs = []"
  by (cases cs) simp_all

lemma not_throwing_returns_value:
  assumes "\<not> is_throwing c" "clause_returns m_value exc c = Inr r"
  shows "\<exists>v. r = Value_returned v"
proof (cases c)
  case (Catch_all l h)
  with assms show ?thesis by (cases h) auto
next
  case (Catch_error l h)
  with assms show ?thesis by (cases h) (auto split: sum.splits)
next
  case (Catch_type l t h)
  with assms show ?thesis by (cases h) (auto split: sum.splits)
qed

lemma invoke_clause_as_throwing:
  assumes "\<not> is_throwing c"
  shows "bind_run (bind_run (lift_run (clause_returns m_value exc c)) (invoke_clause l))
           (\<lambda>v. lift_run (Inr (set_value v promised_value_init))) =
         bind_run (lift_run (clause_returns m_value exc c)) (invoke_clause_throwing A m_value l)"
proof (cases "clause_returns m_value exc c")
  case (Inl f)
  then show ?thesis by simp
next
  case (Inr r)
  with assms obtain v where "r = Value_returned v"
    using not_throwing_returns_value by blast
  with Inr show ?thesis
    by (simp add: invoke_clause_def invoke_clause_throwing_def lift_run_def)
qed

lemma invoke_clause_throwing_settled:
  assumes "holds_failure m_value"
    and "snd (bind_run (lift_run (clause_returns m_value exc c))
                (invoke_clause_throwing A m_value l)) = Inr pv"
  shows "agrees pv \<and> is_rethrow pv = Inr False"
proof (cases "clause_returns m_value exc c")
  case (Inl f)
  with assms show ?thesis by simp
next
  case (Inr r)
  show ?thesis
  proof (cases r)
    case (Value_returned v)
    with Inr assms(2) have "pv = set_value v promised_value_init"
      by (simp add: invoke_clause_throwing_def lift_run_def)
    then show ?thesis
      by (simp add: is_rethrow_def has_exception_def set_value_def agrees_def has_value_def)
  next
    case (Throwing_returned t)
    obtain evs s where inv: "invoke A (map_option (resume A) t) = (evs, s)"
      by (cases "invoke A (map_option (resume A) t)") auto
    show ?thesis
    proof (cases s)
      case (Inl f)
      with inv Inr Throwing_returned assms(2) show ?thesis
        by (simp add: invoke_clause_throwing_def)
    next
      case cr: (Inr catch_result)
      with inv Inr Throwing_returned assms(2)
      have "throwing_clause_outcome m_value catch_result = Inr pv"
        by (simp add: invoke_clause_throwing_def lift_run_def)
      with assms(1) show ?thesis by (rule throwing_clause_outcome_settled)
    qed
  qed
qed

lemma first_match:
  assumes hf: "holds_failure m_value"
    and ty: "address exc \<noteq> nullptr \<longrightarrow> type_id exc \<noteq> None"
    and m: "matches exc c"
  shows "well_formed (pre @ c # post) \<Longrightarrow> \<forall>c'\<in>set pre. \<not> matches exc c' \<Longrightarrow>
         (uses_throwing_overload (pre @ c # post) \<longrightarrow>
            catch_exception_object_throwing A m_value exc (pre @ c # post) =
              bind_run (lift_run (clause_returns m_value exc c))
                (invoke_clause_throwing A m_value (clause_label c))) \<and>
         (\<not> uses_throwing_overload (pre @ c # post) \<longrightarrow>
            catch_exception_object A m_value exc (pre @ c # post) =
              bind_run (lift_run (clause_returns m_value exc c))
                (invoke_clause (clause_label c)))"
proof (induction pre)
  case Nil
  show ?case
  proof (cases c)
    case (Catch_all l h)
    with Nil have "post = []" using well_formed_catch_all by fastforce
    with Catch_all show ?thesis by simp
  next
    case (Catch_error l h)
    with m show ?thesis by (cases "get_error m_value") simp_all
  next
    case (Catch_type l t h)
    with m show ?thesis by (cases "catch_object t exc") (simp_all add: Let_def)
  qed
next
  case (Cons c' pre)
  let ?cs = "pre @ c # post"
  have ne: "?cs \<noteq> []" by simp
  from Cons.prems have wf: "well_formed ?cs" and nca: "\<not> is_catch_all c'"
    using well_formed_Cons [OF ne] by auto
  from Cons.prems have nm: "\<not> matches exc c'" and rest: "\<forall>c'\<in>set pre. \<not> matches exc c'"
    by auto
  note IH = Cons.IH [OF wf rest]
  have settled: "\<And>pv. snd (bind_run (lift_run (clause_returns m_value exc c))
                (invoke_clause_throwing A m_value (clause_label c))) = Inr pv \<Longrightarrow>
                agrees pv \<and> is_rethrow pv = Inr False"
    using invoke_clause_throwing_settled [OF hf] by blast
  have remaining:
    "(if uses_throwing_overload ?cs then
        co_await A (Some (catch_exception_object_throwing A m_value exc ?cs))
          (\<lambda>v. lift_run (Inr (set_value v promised_value_init)))
      else
        bind_run (catch_exception_object A m_value exc ?cs)
          (\<lambda>v. lift_run (Inr (set_value v promised_value_init)))) =
     bind_run (lift_run (clause_returns m_value exc c))
       (invoke_clause_throwing A m_value (clause_label c))"
  proof (cases "uses_throwing_overload ?cs")
    case True
    with IH show ?thesis using co_await_return_id [OF settled] by simp
  next
    case False
    then have "\<not> is_throwing c"
      by (auto simp add: uses_throwing_overload_def)
    with False IH show ?thesis using invoke_clause_as_throwing by simp
  qed
  have skip_t: "uses_throwing_overload (c' # ?cs) \<Longrightarrow>
      catch_exception_object_throwing A m_value exc (c' # ?cs) =
        bind_run (lift_run (clause_returns m_value exc c))
          (invoke_clause_throwing A m_value (clause_label c))"
  proof (cases c')
    case (Catch_all l h)
    with nca show ?thesis by simp
  next
    case (Catch_error l h)
    with nm remaining show ?thesis by (simp add: Let_def)
  next
    case (Catch_type l t h)
    with nm ty have "catch_object t exc = Inr nullptr"
      by (auto simp add: catch_object_def split: option.splits sum.splits if_splits)
    with Catch_type remaining show ?thesis by (simp add: Let_def)
  qed
  have skip_p: "\<not> uses_throwing_overload (c' # ?cs) \<Longrightarrow>
      catch_exception_object A m_value exc (c' # ?cs) =
        bind_run (lift_run (clause_returns m_value exc c)) (invoke_clause (clause_label c))"
  proof -
    assume nu: "\<not> uses_throwing_overload (c' # ?cs)"
    then have nu': "\<not> uses_throwing_overload ?cs"
      using uses_throwing_overload_Cons [OF ne] by simp
    show ?thesis
    proof (cases c')
      case (Catch_all l h)
      with nca show ?thesis by simp
    next
      case (Catch_error l h)
      with nm nu' IH show ?thesis by simp
    next
      case (Catch_type l t h)
      with nm ty have "catch_object t exc = Inr nullptr"
        by (auto simp add: catch_object_def split: option.splits sum.splits if_splits)
      with Catch_type nu' IH show ?thesis by simp
    qed
  qed
  from skip_t skip_p show ?case by simp
qed

lemma fst_lift_run [simp]: "fst (lift_run r) = []"
  by (simp add: lift_run_def)

lemma snd_lift_run [simp]: "snd (lift_run r) = r"
  by (simp add: lift_run_def)

lemma co_await_no_clause_events:
  assumes "\<And>r. h = Some r \<Longrightarrow> invoked_clauses (fst r) = []"
    and "\<And>v. invoked_clauses (fst (k v)) = []"
  shows "invoked_clauses (fst (co_await A h k)) = []"
proof (cases h)
  case None
  then show ?thesis
    by (simp add: co_await_def await_ready_def)
next
  case (Some r)
  obtain evs s where r: "r = (evs, s)" by (cases r) auto
  with Some assms(1) have evs: "invoked_clauses evs = []" by auto
  show ?thesis
  proof (cases s)
    case (Inl f)
    with Some r evs show ?thesis by (simp add: co_await_def await_ready_def)
  next
    case (Inr val)
    with Some r evs assms(2) show ?thesis
      by (cases "await_resume (Some (evs, Inr val))")
         (simp_all add: co_await_def await_ready_def)
  qed
qed

lemma resume_no_clause_events: "invoked_clauses (fst (resume A b)) = []"
proof (induction b)
  case (Co_await nested rest)
  show ?case
    unfolding resume.simps
  proof (rule co_await_no_clause_events)
    fix r assume "map_option (resume A) nested = Some r"
    then obtain n where "nested = Some n" "r = resume A n" by auto
    with Co_await.IH(1) show "invoked_clauses (fst r) = []" by simp
  next
    fix v show "invoked_clauses (fst (resume A (rest v))) = []"
      using Co_await.IH(2) by simp
  qed
qed simp_all

lemma invoke_no_clause_events:
  "invoked_clauses (fst (invoke A (map_option (resume A) t))) = []"
proof (cases t)
  case None
  then show ?thesis by (simp add: invoke_def)
next
  case (Some b)
  have "invoked_clauses (fst (resume A b)) = []" by (rule resume_no_clause_events)
  with Some show ?thesis
    by (cases "resume A b") (auto simp add: invoke_def fst_bind_run split: sum.splits)
qed

lemma invoke_clause_throwing_events:
  "invoked_clauses (fst (invoke_clause_throwing A m_value l r)) = [l]"
proof (cases r)
  case (Value_returned v)
  then show ?thesis by (simp add: invoke_clause_throwing_def)
next
  case (Throwing_returned t)
  have "invoked_clauses (fst (invoke A (map_option (resume A) t))) = []"
    by (rule invoke_no_clause_events)
  with Throwing_returned show ?thesis
    by (auto simp add: invoke_clause_throwing_def fst_bind_run split: sum.splits)
qed

lemma invoke_clause_events: "invoked_clauses (fst (invoke_clause l r)) = [l]"
  by (cases r) (simp_all add: invoke_clause_def)

lemma holds_failure_dynamic_object:
  assumes "holds_failure m_value" "current_dynamic_object m_value = Inr exc"
  shows "address exc \<noteq> nullptr \<longrightarrow> type_id exc \<noteq> None"
    and "address exc = nullptr \<longrightarrow> (\<exists>e. get_error m_value = Inr e)"
  using assms
  by (auto simp add: holds_failure_def current_dynamic_object_def exception_of_def
      exception_dynamic_object_def null_dynamic_object_def get_error_def has_error_def
      has_value_def has_exception_def
      split: storage.splits option.splits if_splits)

lemma matched_clause_returns:
  assumes "holds_failure m_value" "current_dynamic_object m_value = Inr exc" "matches exc c"
  shows "\<exists>r. clause_returns m_value exc c = Inr r"
proof (cases c)
  case (Catch_all l h)
  then show ?thesis by simp
next
  case (Catch_error l h)
  with assms holds_failure_dynamic_object(2) [OF assms(1,2)] show ?thesis by auto
next
  case (Catch_type l t h)
  with assms(3) show ?thesis by (auto split: sum.splits)
qed

lemma catches_first_match:
  assumes hf: "holds_failure m_value"
    and dyn: "current_dynamic_object m_value = Inr exc"
    and wf: "well_formed (pre @ c # post)"
    and pre: "\<forall>c'\<in>set pre. \<not> matches exc c'"
    and m: "matches exc c"
  shows "catches A m_value (pre @ c # post) =
           (if uses_throwing_overload (pre @ c # post) then
              Throwing (bind_run (lift_run (clause_returns m_value exc c))
                          (invoke_clause_throwing A m_value (clause_label c)))
            else
              Plain (bind_run (lift_run (clause_returns m_value exc c))
                       (invoke_clause (clause_label c))))"
proof -
  note ty = holds_failure_dynamic_object(1) [OF hf dyn]
  note fm = first_match [OF hf ty m wf pre, of A]
  have nv: "\<not> has_value m_value" using hf holds_failure_agrees by blast
  have settled: "\<And>pv. snd (bind_run (lift_run (clause_returns m_value exc c))
                (invoke_clause_throwing A m_value (clause_label c))) = Inr pv \<Longrightarrow>
                agrees pv \<and> is_rethrow pv = Inr False"
    using invoke_clause_throwing_settled [OF hf] by blast
  show ?thesis
  proof (cases "uses_throwing_overload (pre @ c # post)")
    case True
    with fm wf nv dyn show ?thesis
      using co_await_return_id [OF settled]
      by (simp add: catches_def catches_throwing_def)
  next
    case False
    with fm wf nv dyn show ?thesis
      by (simp add: catches_def catches_plain_def)
  qed
qed

lemma dyn_cast_reaches:
  "p \<noteq> nullptr \<Longrightarrow> base_objects_non_null p t \<Longrightarrow>
     (dyn_cast base p t \<noteq> nullptr) = reaches base t"
  "p \<noteq> nullptr \<Longrightarrow> base_objects_non_null_bases p bs \<Longrightarrow>
     (dyn_cast_bases base p bs \<noteq> nullptr) = reaches_bases base bs"
  by (induction base p t and base p bs rule: dyn_cast_dyn_cast_bases.induct)
     (auto simp add: Let_def)

lemma matches_structurally:
  assumes "placed exc"
  shows "matches exc c = structurally_matches exc c"
proof (cases c)
  case (Catch_type l t h)
  show ?thesis
  proof (cases "address exc = nullptr")
    case True
    with Catch_type show ?thesis by (simp add: catch_object_def)
  next
    case False
    show ?thesis
    proof (cases "type_id exc")
      case None
      with False Catch_type show ?thesis by (simp add: catch_object_def)
    next
      case (Some most_derived)
      with assms have "base_objects_non_null (address exc) most_derived"
        by (simp add: placed_def)
      with False have "(dyn_cast t (address exc) most_derived \<noteq> nullptr) = reaches t most_derived"
        using dyn_cast_reaches(1) by blast
      with False Some Catch_type show ?thesis by (simp add: catch_object_def)
    qed
  qed
qed simp_all

text \<open>
  Claim C3. When a result holding a failure is dispatched through \<^verbatim>\<open>catches\<close> and some clause
  matches structurally while none before it does, the call is accepted and exactly that clause
  is called, whatever clauses follow it and whether or not they would match too. A clause
  matches structurally when it is a catch-all, or takes an error while an error is active, or
  takes the type of the active exception or one of its declared bases.
\<close>

theorem first_matching_clause_invoked:
  assumes "holds_failure m_value"
    and "current_dynamic_object m_value = Inr exc"
    and "placed exc"
    and "well_formed (pre @ c # post)"
    and "\<forall>c'\<in>set pre. \<not> structurally_matches exc c'"
    and "structurally_matches exc c"
  shows "catches A m_value (pre @ c # post) \<noteq> Rejected \<and>
         invoked_clauses (catches_events (catches A m_value (pre @ c # post))) = [clause_label c]"
proof -
  from assms(3,5) have pre: "\<forall>c'\<in>set pre. \<not> matches exc c'"
    by (simp add: matches_structurally)
  from assms(3,6) have m: "matches exc c"
    by (simp add: matches_structurally)
  obtain r where r: "clause_returns m_value exc c = Inr r"
    using matched_clause_returns [OF assms(1,2) m] by blast
  show ?thesis
    unfolding catches_first_match [OF assms(1,2,4) pre m]
    by (simp add: r invoke_clause_throwing_events invoke_clause_events)
qed

text \<open>
  Claim C4. The outcome of the dispatch is the outcome of the first matching clause. If the
  clause returns a plain value, that value is the result. If it is a throwing clause, then:
  when it ends in a rethrow, the dispatching coroutine's slot is the original slot, with the
  same domain pointer and the same error code or exception object; when it fails with an
  error or exception of its own, the slot is that failure; and when it produces a value, the
  slot holds that value. In each case only that clause is among the events.
\<close>

theorem clause_outcome_is_dispatch_outcome:
  assumes "holds_failure m_value"
    and "current_dynamic_object m_value = Inr exc"
    and "well_formed (pre @ c # post)"
    and "\<forall>c'\<in>set pre. \<not> matches exc c'"
    and "matches exc c"
  shows "\<exists>r. clause_returns m_value exc c = Inr r \<and>
     (\<forall>v. r = Value_returned v \<longrightarrow>
        catches A m_value (pre @ c # post) =
          (if uses_throwing_overload (pre @ c # post)
           then Throwing ([Clause_invoked (clause_label c)],
                          Inr (set_value v promised_value_init))
           else Plain ([Clause_invoked (clause_label c)], Inr v))) \<and>
     (\<forall>t evs catch_result.
        r = Throwing_returned t \<and>
        invoke A (map_option (resume A) t) = (evs, Inr catch_result) \<and> agrees catch_result \<longrightarrow>
          (is_rethrow catch_result = Inr True \<longrightarrow>
             catches A m_value (pre @ c # post) =
               Throwing (Clause_invoked (clause_label c) # evs, Inr m_value)) \<and>
          (is_rethrow catch_result = Inr False \<and> \<not> has_value catch_result \<longrightarrow>
             catches A m_value (pre @ c # post) =
               Throwing (Clause_invoked (clause_label c) # evs, Inr catch_result)) \<and>
          (has_value catch_result \<longrightarrow>
             (\<exists>v. value_of catch_result = Inr v \<and>
                catches A m_value (pre @ c # post) =
                  Throwing (Clause_invoked (clause_label c) # evs,
                            Inr (set_value v promised_value_init)))))"
proof -
  obtain r where r: "clause_returns m_value exc c = Inr r"
    using matched_clause_returns [OF assms(1,2,5)] by blast
  note eq = catches_first_match [OF assms, of A]
  have plain: "\<And>v. r = Value_returned v \<Longrightarrow>
        catches A m_value (pre @ c # post) =
          (if uses_throwing_overload (pre @ c # post)
           then Throwing ([Clause_invoked (clause_label c)],
                          Inr (set_value v promised_value_init))
           else Plain ([Clause_invoked (clause_label c)], Inr v))"
    using eq r by (simp add: invoke_clause_throwing_def invoke_clause_def lift_run_def)
  have thr: "\<And>t. r = Throwing_returned t \<Longrightarrow> uses_throwing_overload (pre @ c # post)"
  proof -
    fix t assume t: "r = Throwing_returned t"
    have "is_throwing c"
    proof (cases c)
      case (Catch_all l h)
      with r t show ?thesis by (cases h) auto
    next
      case (Catch_error l h)
      with r t show ?thesis by (cases h) (auto split: sum.splits)
    next
      case (Catch_type l ty h)
      with r t show ?thesis by (cases h) (auto split: sum.splits)
    qed
    then show "uses_throwing_overload (pre @ c # post)"
      by (auto simp add: uses_throwing_overload_def)
  qed
  have throwing: "\<And>t evs catch_result.
        r = Throwing_returned t \<Longrightarrow>
        invoke A (map_option (resume A) t) = (evs, Inr catch_result) \<Longrightarrow>
        catches A m_value (pre @ c # post) =
          Throwing (Clause_invoked (clause_label c) # evs,
                    throwing_clause_outcome m_value catch_result)"
    using eq r thr by (simp add: invoke_clause_throwing_def lift_run_def)
  have rethrown: "\<And>t evs catch_result.
        r = Throwing_returned t \<Longrightarrow>
        invoke A (map_option (resume A) t) = (evs, Inr catch_result) \<Longrightarrow>
        agrees catch_result \<Longrightarrow> is_rethrow catch_result = Inr True \<Longrightarrow>
        catches A m_value (pre @ c # post) =
          Throwing (Clause_invoked (clause_label c) # evs, Inr m_value)"
    using throwing throwing_clause_outcome_cases(1) [OF assms(1)] by simp
  have failed: "\<And>t evs catch_result.
        r = Throwing_returned t \<Longrightarrow>
        invoke A (map_option (resume A) t) = (evs, Inr catch_result) \<Longrightarrow>
        agrees catch_result \<Longrightarrow> is_rethrow catch_result = Inr False \<Longrightarrow>
        \<not> has_value catch_result \<Longrightarrow>
        catches A m_value (pre @ c # post) =
          Throwing (Clause_invoked (clause_label c) # evs, Inr catch_result)"
    using throwing throwing_clause_outcome_cases(2) [OF assms(1)] by simp
  have produced: "\<And>t evs catch_result.
        r = Throwing_returned t \<Longrightarrow>
        invoke A (map_option (resume A) t) = (evs, Inr catch_result) \<Longrightarrow>
        agrees catch_result \<Longrightarrow> has_value catch_result \<Longrightarrow>
        \<exists>v. value_of catch_result = Inr v \<and>
          catches A m_value (pre @ c # post) =
            Throwing (Clause_invoked (clause_label c) # evs,
                      Inr (set_value v promised_value_init))"
  proof -
    fix t evs catch_result
    assume h: "r = Throwing_returned t"
      "invoke A (map_option (resume A) t) = (evs, Inr catch_result)"
      "agrees catch_result" "has_value catch_result"
    from throwing_clause_outcome_cases(3) [OF assms(1) h(3) h(4)]
    obtain v where "value_of catch_result = Inr v"
      "throwing_clause_outcome m_value catch_result = Inr (set_value v promised_value_init)"
      by blast
    with throwing [OF h(1) h(2)]
    show "\<exists>v. value_of catch_result = Inr v \<and>
          catches A m_value (pre @ c # post) =
            Throwing (Clause_invoked (clause_label c) # evs,
                      Inr (set_value v promised_value_init))"
      by simp
  qed
  show ?thesis
    using r plain rethrown failed produced by blast
qed

text \<open>
  Claim C5. On a result that holds a value \<open>v\<close>, \<^verbatim>\<open>catches\<close> gives \<open>v\<close> for every accepted list
  of clauses, through either overload, and no clause is called.
\<close>

theorem catches_value_unchanged:
  assumes "well_formed clauses" "has_value m_value" "m_storage m_value = M_value v"
  shows "catches A m_value clauses =
           (if uses_throwing_overload clauses
            then Throwing ([], Inr (set_value v promised_value_init))
            else Plain ([], Inr v)) \<and>
         invoked_clauses (catches_events (catches A m_value clauses)) = []"
  using assms
  by (simp add: catches_def catches_throwing_def catches_plain_def value_of_def lift_run_def)

text \<open>
  Claim C1. Let a body await a nested computation that has run to its suspension with its
  slot and union member in agreement. If the nested slot holds an error or an exception object,
  the run of the awaiting body ends there with exactly the events of the nested computation
  and with the nested slot as its own: the same domain pointer and the same error code or
  exception object. For any failure the run does not depend on the statements after the
  await. If the nested slot holds a value, the run continues with the rest of the body applied
  to that value.
\<close>

theorem await_failure_propagates:
  assumes "resume A nested = (evs, Inr value)" "agrees value"
  shows "(\<not> has_value value \<and> is_rethrow value = Inr False \<longrightarrow>
            resume A (Co_await (Some nested) rest) = (evs, Inr value)) \<and>
         (\<not> has_value value \<longrightarrow>
            (\<forall>rest'. resume A (Co_await (Some nested) rest) =
                     resume A (Co_await (Some nested) rest'))) \<and>
         (has_value value \<longrightarrow>
            (\<exists>v. value_of value = Inr v \<and>
               resume A (Co_await (Some nested) rest) =
                 bind_run (evs, Inr ()) (\<lambda>_. resume A (rest v))))"
proof -
  obtain d st where pv: "value = \<lparr>m_error_domain = d, m_storage = st\<rparr>"
    by (cases "value") auto
  have ready: "await_ready A (Some (evs, Inr value)) = (evs, Inr (has_value value))"
    by (simp add: await_ready_def)
  have a: "\<not> has_value value \<Longrightarrow> is_rethrow value = Inr False \<Longrightarrow>
            resume A (Co_await (Some nested) rest) = (evs, Inr value)"
    using assms propagate_init_failure [of "value"]
    by (simp add: co_await_def ready await_suspend_def promise_value_def
        yield_value_propagate_def split: sum.splits prod.splits)
  have b: "\<not> has_value value \<Longrightarrow>
            (\<forall>rest'. resume A (Co_await (Some nested) rest) =
                     resume A (Co_await (Some nested) rest'))"
    using assms by (simp add: co_await_def ready)
  have c: "has_value value \<Longrightarrow>
            (\<exists>v. value_of value = Inr v \<and>
               resume A (Co_await (Some nested) rest) =
                 bind_run (evs, Inr ()) (\<lambda>_. resume A (rest v)))"
    using assms unfolding pv
    by (cases st)
       (auto simp add: co_await_def await_ready_def await_resume_def promise_value_def
          value_of_def agrees_def has_value_def has_error_def has_exception_def)
  from a b c show ?thesis by blast
qed


section \<open>The example program, run\<close>

lemmas slot_defs =
  promised_value_init_def has_value_def has_exception_def has_error_def is_rethrow_def
  value_of_def exception_of_def get_error_def set_value_def set_error_def set_exception_def
  rethrow_def propagate_def move_construct_def make_exception_ptr_def yield_value_exception_def
  agrees_def holds_failure_def error_errc_def

lemmas run_defs =
  bind_run_def lift_run_def emit_def await_ready_def promise_value_def await_suspend_def
  await_resume_def co_await_def invoke_def yield_value_propagate_def is_noexcept_allocator_def

lemmas dispatch_defs =
  uses_throwing_overload_def throwing_clause_outcome_def invoke_clause_throwing_def
  invoke_clause_def catch_object_def current_dynamic_object_def catches_throwing_def
  catches_plain_def catches_def try_catch_def exception_dynamic_object_def
  null_dynamic_object_def

lemmas example_defs =
  std_exception_def std_runtime_error_def foo_def main_try_def main_clauses_def raised_def
  raised_object_def

lemma resume_foo_False: "resume Void_allocator (foo False) = ([], Inr raised)"
  by (simp add: example_defs slot_defs run_defs)

lemma resume_foo_True:
  "resume Void_allocator (foo True) = ([], Inr (set_value 1337 promised_value_init))"
  by (simp add: example_defs slot_defs run_defs)

theorem await_failure_propagates_witness:
  "resume Void_allocator (foo False) = ([], Inr raised) \<and> agrees raised \<and>
   \<not> has_value raised \<and> is_rethrow raised = Inr False \<and>
   resume Void_allocator (Co_await (Some (foo False)) (\<lambda>v. Statement 2 (Co_return 0))) =
     ([], Inr raised) \<and>
   resume Void_allocator (main_try False) = ([Statement_executed 1], Inr raised) \<and>
   resume Void_allocator (foo True) = ([], Inr (set_value 1337 promised_value_init)) \<and>
   resume Void_allocator (Co_await (Some (foo True)) (\<lambda>v. Statement 2 (Co_return v))) =
     ([Statement_executed 2], Inr (set_value 1337 promised_value_init))"
proof -
  have a: "agrees raised" "\<not> has_value raised" "is_rethrow raised = Inr False"
    by (simp_all add: raised_def slot_defs)
  have b: "agrees (set_value 1337 promised_value_init :: (int, string) promised_value)"
    "has_value (set_value 1337 promised_value_init :: (int, string) promised_value)"
    "value_of (set_value 1337 promised_value_init :: (int, string) promised_value) = Inr 1337"
    by (simp_all add: slot_defs)
  have c: "resume Void_allocator (Co_await (Some (foo False)) (\<lambda>v. Statement 2 (Co_return 0))) =
     ([], Inr raised)"
    using await_failure_propagates
            [OF resume_foo_False a(1), of "\<lambda>v. Statement 2 (Co_return 0)"] a
    by blast
  have d: "resume Void_allocator (Co_await (Some (foo True)) (\<lambda>v. Statement 2 (Co_return v))) =
     ([Statement_executed 2], Inr (set_value 1337 promised_value_init))"
  proof -
    from await_failure_propagates
           [OF resume_foo_True b(1), of "\<lambda>v. Statement 2 (Co_return v)"] b(2)
    obtain v where v: "value_of (set_value 1337 promised_value_init ::
                         (int, string) promised_value) = Inr v"
      and r: "resume Void_allocator
                (Co_await (Some (foo True)) (\<lambda>v. Statement 2 (Co_return v))) =
              bind_run ([], Inr ()) (\<lambda>_. resume Void_allocator (Statement 2 (Co_return v)))"
      by blast
    from v b(3) have "v = 1337" by simp
    with r show ?thesis by (simp add: bind_run_def lift_run_def emit_def)
  qed
  have e: "resume Void_allocator (main_try False) = ([Statement_executed 1], Inr raised)"
    unfolding main_try_def resume.simps(6) c by (simp add: bind_run_def emit_def)
  from a c d e resume_foo_False resume_foo_True show ?thesis by simp
qed

lemma raised_holds_failure: "holds_failure raised"
  by (simp add: raised_def slot_defs)

lemma raised_dynamic_object: "current_dynamic_object raised = Inr raised_object"
  by (simp add: raised_def raised_object_def dispatch_defs slot_defs)

theorem first_matching_clause_invoked_witness:
  "holds_failure raised \<and> current_dynamic_object raised = Inr raised_object \<and>
   placed raised_object \<and>
   \<not> structurally_matches raised_object
       (Catch_type 4 chain_X (Returns (\<lambda>error. 4)) :: (int, string) clause) \<and>
   \<not> structurally_matches raised_object (Catch_error 3 (Returns (\<lambda>e. 3)) :: (int, string) clause) \<and>
   structurally_matches raised_object
     (Catch_type 1 std_exception (Returns (\<lambda>error. 1)) :: (int, string) clause) \<and>
   structurally_matches raised_object (Catch_all 2 (Returns (\<lambda>_. 1)) :: (int, string) clause) \<and>
   invoked_clauses (catches_events (catches Void_allocator raised
     (Catch_type 4 chain_X (Returns (\<lambda>error. 4)) # Catch_error 3 (Returns (\<lambda>e. 3)) #
      main_clauses))) = [1] \<and>
   try_catch Void_allocator (Some (main_try False))
     (Catch_type 4 chain_X (Returns (\<lambda>error. 4)) # Catch_error 3 (Returns (\<lambda>e. 3)) #
      main_clauses) =
     Plain ([Statement_executed 1, Clause_invoked 1], Inr 1)"
proof -
  have pl: "placed raised_object"
    by (simp add: placed_def raised_object_def std_runtime_error_def std_exception_def)
  have wf: "well_formed ([Catch_type 4 chain_X (Returns (\<lambda>error. 4)),
                          Catch_error 3 (Returns (\<lambda>e. 3))] @
              Catch_type 1 std_exception (Returns (\<lambda>error. 1)) #
              [Catch_all 2 (Returns (\<lambda>_. 1)) :: (int, string) clause])"
    by simp
  have n1: "\<not> structurally_matches raised_object
              (Catch_type 4 chain_X (Returns (\<lambda>error. 4)) :: (int, string) clause)"
    by (simp add: raised_object_def chain_X_def std_runtime_error_def std_exception_def)
  have n2: "\<not> structurally_matches raised_object
              (Catch_error 3 (Returns (\<lambda>e. 3)) :: (int, string) clause)"
    by (simp add: raised_object_def)
  from n1 n2
  have pre: "\<forall>c'\<in>set [Catch_type 4 chain_X (Returns (\<lambda>error. 4)),
                       Catch_error 3 (Returns (\<lambda>e. 3)) :: (int, string) clause].
               \<not> structurally_matches raised_object c'"
    by simp
  have m: "structurally_matches raised_object
             (Catch_type 1 std_exception (Returns (\<lambda>error. 1)) :: (int, string) clause)"
    by (simp add: raised_object_def std_exception_def std_runtime_error_def)
  have m2: "structurally_matches raised_object
              (Catch_all 2 (Returns (\<lambda>_. 1)) :: (int, string) clause)"
    by simp
  from first_matching_clause_invoked
         [OF raised_holds_failure raised_dynamic_object pl wf pre m, of Void_allocator]
  have "invoked_clauses (catches_events (catches Void_allocator raised
     (Catch_type 4 chain_X (Returns (\<lambda>error. 4)) # Catch_error 3 (Returns (\<lambda>e. 3)) #
      main_clauses))) = [1]"
    by (simp add: main_clauses_def)
  moreover have "try_catch Void_allocator (Some (main_try False))
       (Catch_type 4 chain_X (Returns (\<lambda>error. 4)) # Catch_error 3 (Returns (\<lambda>e. 3)) #
        main_clauses) =
     Plain ([Statement_executed 1, Clause_invoked 1], Inr 1)"
    by (simp add: example_defs dispatch_defs run_defs slot_defs chain_X_def)
  ultimately show ?thesis
    using raised_holds_failure raised_dynamic_object pl n1 n2 m m2 by simp
qed

theorem catches_value_unchanged_witness:
  "well_formed main_clauses \<and>
   has_value (set_value 1337 promised_value_init :: (int, string) promised_value) \<and>
   catches Void_allocator (set_value 1337 promised_value_init) main_clauses =
     Plain ([], Inr 1337) \<and>
   try_catch Void_allocator (Some (foo True)) main_clauses = Plain ([], Inr 1337)"
proof -
  have wf: "well_formed main_clauses" by (simp add: main_clauses_def)
  have hv: "has_value (set_value 1337 promised_value_init :: (int, string) promised_value)"
    by (simp add: slot_defs)
  have st: "m_storage (set_value 1337 promised_value_init :: (int, string) promised_value) =
              M_value 1337"
    by (simp add: slot_defs)
  have nu: "\<not> uses_throwing_overload main_clauses"
    by (simp add: main_clauses_def uses_throwing_overload_def)
  have c: "catches Void_allocator (set_value 1337 promised_value_init) main_clauses =
     Plain ([], Inr 1337)"
    using catches_value_unchanged [OF wf hv st, of Void_allocator] nu by simp
  have inv: "invoke Void_allocator (map_option (resume Void_allocator) (Some (foo True))) =
     ([], Inr (set_value 1337 promised_value_init))"
    by (simp add: resume_foo_True invoke_def is_noexcept_allocator_def move_construct_def
        has_value_def set_value_def bind_run_def lift_run_def)
  have "try_catch Void_allocator (Some (foo True)) main_clauses = Plain ([], Inr 1337)"
    using c wf nu inv by (simp add: try_catch_def catches_def bind_run_def)
  with wf hv c show ?thesis by simp
qed

theorem clause_outcome_is_dispatch_outcome_witness:
  "holds_failure raised \<and> current_dynamic_object raised = Inr raised_object \<and>
   matches raised_object rethrowing_clause \<and> matches raised_object failing_clause \<and>
   catches Void_allocator raised [rethrowing_clause] = Throwing ([Clause_invoked 1], Inr raised) \<and>
   catches Void_allocator raised [failing_clause] =
     Throwing ([Clause_invoked 1], Inr (set_error (error_errc 5) promised_value_init)) \<and>
   catches Void_allocator raised main_clauses = Plain ([Clause_invoked 1], Inr 1)"
proof -
  have nopre: "\<forall>c'\<in>set ([] :: (int, string) clause list). \<not> matches raised_object c'"
    by simp
  have obj: "catch_object std_exception raised_object = Inr 4096"
    by (simp add: raised_object_def catch_object_def std_exception_def std_runtime_error_def)
  have m1: "matches raised_object rethrowing_clause"
    by (simp add: rethrowing_clause_def obj)
  have m2: "matches raised_object failing_clause"
    by (simp add: failing_clause_def obj)
  have m3: "matches raised_object
              (Catch_type 1 std_exception (Returns (\<lambda>error. 1)) :: (int, string) clause)"
    by (simp add: obj)
  have wf1: "well_formed ([] @ rethrowing_clause # [])" by simp
  have wf2: "well_formed ([] @ failing_clause # [])" by simp
  have wf3: "well_formed ([] @ Catch_type 1 std_exception (Returns (\<lambda>error. 1)) #
               [Catch_all 2 (Returns (\<lambda>_. 1)) :: (int, string) clause])"
    by simp
  have r1: "catches Void_allocator raised [rethrowing_clause] =
              Throwing ([Clause_invoked 1], Inr raised)"
  proof -
    from clause_outcome_is_dispatch_outcome
           [OF raised_holds_failure raised_dynamic_object wf1 nopre m1, of Void_allocator]
    obtain r where r: "clause_returns raised raised_object rethrowing_clause = Inr r"
      and t: "\<And>t evs catch_result.
        r = Throwing_returned t \<Longrightarrow>
        invoke Void_allocator (map_option (resume Void_allocator) t) = (evs, Inr catch_result) \<Longrightarrow>
        agrees catch_result \<Longrightarrow> is_rethrow catch_result = Inr True \<Longrightarrow>
        catches Void_allocator raised ([] @ rethrowing_clause # []) =
          Throwing (Clause_invoked (clause_label rethrowing_clause) # evs, Inr raised)"
      by blast
    from r have req: "r = Throwing_returned (Some (Co_yield_rethrow (Co_return 0)))"
      by (simp add: rethrowing_clause_def obj)
    have inv: "invoke Void_allocator
                 (map_option (resume Void_allocator) (Some (Co_yield_rethrow (Co_return 0)))) =
               ([], Inr (rethrow promised_value_init :: (int, string) promised_value))"
      by (simp add: run_defs slot_defs)
    have ag: "agrees (rethrow promised_value_init :: (int, string) promised_value)"
      "is_rethrow (rethrow promised_value_init :: (int, string) promised_value) = Inr True"
      by (simp_all add: slot_defs)
    from t [OF req inv ag] show ?thesis by (simp add: rethrowing_clause_def)
  qed
  have r2: "catches Void_allocator raised [failing_clause] =
              Throwing ([Clause_invoked 1], Inr (set_error (error_errc 5) promised_value_init))"
  proof -
    from clause_outcome_is_dispatch_outcome
           [OF raised_holds_failure raised_dynamic_object wf2 nopre m2, of Void_allocator]
    obtain r where r: "clause_returns raised raised_object failing_clause = Inr r"
      and t: "\<And>t evs catch_result.
        r = Throwing_returned t \<Longrightarrow>
        invoke Void_allocator (map_option (resume Void_allocator) t) = (evs, Inr catch_result) \<Longrightarrow>
        agrees catch_result \<Longrightarrow> is_rethrow catch_result = Inr False \<Longrightarrow>
        \<not> has_value catch_result \<Longrightarrow>
        catches Void_allocator raised ([] @ failing_clause # []) =
          Throwing (Clause_invoked (clause_label failing_clause) # evs, Inr catch_result)"
      by blast
    from r have req:
      "r = Throwing_returned (Some (Co_yield_error (error_errc 5) (Co_return 0)))"
      by (simp add: failing_clause_def obj)
    have inv: "invoke Void_allocator
                 (map_option (resume Void_allocator)
                    (Some (Co_yield_error (error_errc 5) (Co_return 0)))) =
               ([], Inr (set_error (error_errc 5) promised_value_init ::
                           (int, string) promised_value))"
      by (simp add: run_defs slot_defs)
    have ag: "agrees (set_error (error_errc 5) promised_value_init :: (int, string) promised_value)"
      "is_rethrow (set_error (error_errc 5) promised_value_init ::
         (int, string) promised_value) = Inr False"
      "\<not> has_value (set_error (error_errc 5) promised_value_init ::
         (int, string) promised_value)"
      by (simp_all add: slot_defs)
    from t [OF req inv ag] show ?thesis by (simp add: failing_clause_def)
  qed
  have r3: "catches Void_allocator raised main_clauses = Plain ([Clause_invoked 1], Inr 1)"
  proof -
    from clause_outcome_is_dispatch_outcome
           [OF raised_holds_failure raised_dynamic_object wf3 nopre m3, of Void_allocator]
    obtain r where
      r: "clause_returns raised raised_object
            (Catch_type 1 std_exception (Returns (\<lambda>error. 1)) :: (int, string) clause) = Inr r"
      and t: "\<And>v. r = Value_returned v \<Longrightarrow>
        catches Void_allocator raised
          ([] @ Catch_type 1 std_exception (Returns (\<lambda>error. 1)) #
             [Catch_all 2 (Returns (\<lambda>_. 1))]) =
          (if uses_throwing_overload
                ([] @ Catch_type 1 std_exception (Returns (\<lambda>error. 1)) #
                   [Catch_all 2 (Returns (\<lambda>_. 1)) :: (int, string) clause])
           then Throwing ([Clause_invoked
                     (clause_label (Catch_type 1 std_exception (Returns (\<lambda>error. 1)) ::
                        (int, string) clause))],
                   Inr (set_value v promised_value_init))
           else Plain ([Clause_invoked
                     (clause_label (Catch_type 1 std_exception (Returns (\<lambda>error. 1)) ::
                        (int, string) clause))], Inr v))"
      by blast
    from r have req: "r = Value_returned 1" by (simp add: obj)
    from t [OF req] show ?thesis by (simp add: main_clauses_def uses_throwing_overload_def)
  qed
  from raised_holds_failure raised_dynamic_object m1 m2 r1 r2 r3 show ?thesis by simp
qed

end
